theory Spec2Isabelle
  imports Complex_Main
begin

section \<open>Errors, frames and the object store\<close>

text \<open>
  The exceptions the modelled code can raise. \<open>ZgoubidooException\<close> is the library's own
  (fatal) error class; the others are Python built-ins raised by the interpreter.
\<close>

datatype error =
    ZgoubidooException string
  | TypeError
  | AttributeError
  | IndexError
  | KeyError
  | ZeroDivisionError

text \<open>
  \<open>Frame\<close> comes from the external package \<open>georges_core\<close>; the commands only use its
  interface: the constructor \<open>frame.__class__(frame)\<close>, and the in-place methods
  \<open>translate_x\<close>, \<open>translate_y\<close> and \<open>rotate_z\<close>. No geometry is assumed of it.

  Frames are mutable objects, kept in a store; an address is an index into the store and
  the constructor allocates at the end. The constructor does not copy its argument: it
  builds a frame whose parent is the argument and which has no motion of its own. The
  methods append a rigid motion to the frame's own motions. The position of a frame
  (\<open>absolute\<close>) is the sequence of motions that leads to it from the global reference
  frame, oldest first: the position of its parent followed by its own motions. A frame
  therefore follows its parent when the parent is moved later.

  Quantities are real numbers in one fixed unit per dimension (lengths, angles in radians),
  so unit conversions are the identity and rounding is not modelled.
\<close>

datatype motion = TranslateX real | TranslateY real | RotateZ real

type_synonym frame = "motion list"
type_synonym addr = nat

record frame_obj =
  parent :: "addr option"
  motions :: "motion list"

type_synonym store = "frame_obj list"

abbreviation child_of :: "addr \<Rightarrow> motion list \<Rightarrow> frame_obj" where
  "child_of p ms \<equiv> \<lparr>parent = Some p, motions = ms\<rparr>"

text \<open>\<open>Frame()\<close>, a frame without parent: the global reference frame.\<close>

definition global_frame :: frame_obj where
  "global_frame = \<lparr>parent = None, motions = []\<rparr>"

definition new_Frame :: "addr \<Rightarrow> store \<Rightarrow> addr \<times> store" where
  "new_Frame p h = (length h, h @ [child_of p []])"

definition translate_x :: "addr \<Rightarrow> real \<Rightarrow> store \<Rightarrow> store" where
  "translate_x a d h = h[a := (h ! a)\<lparr>motions := motions (h ! a) @ [TranslateX d]\<rparr>]"

definition translate_y :: "addr \<Rightarrow> real \<Rightarrow> store \<Rightarrow> store" where
  "translate_y a d h = h[a := (h ! a)\<lparr>motions := motions (h ! a) @ [TranslateY d]\<rparr>]"

definition rotate_z :: "addr \<Rightarrow> real \<Rightarrow> store \<Rightarrow> store" where
  "rotate_z a t h = h[a := (h ! a)\<lparr>motions := motions (h ! a) @ [RotateZ t]\<rparr>]"

text \<open>
  A parent is allocated before its children, so its address is the smaller one; the
  recursion follows the parents down to a frame without parent.
\<close>

function absolute :: "store \<Rightarrow> addr \<Rightarrow> frame" where
  "absolute h a =
     (case parent (h ! a) of
        None \<Rightarrow> motions (h ! a)
      | Some p \<Rightarrow> if p < a then absolute h p @ motions (h ! a) else motions (h ! a))"
  by pat_completeness auto
termination
  by (relation "measure snd") auto

declare absolute.simps [simp del]

text \<open>
  \<open>q or 0.0 * unit\<close> on an optional quantity: \<open>None\<close> and a zero quantity are both falsy.
\<close>

definition or_zero :: "real option \<Rightarrow> real" where
  "or_zero q = (case q of None \<Rightarrow> 0 | Some v \<Rightarrow> if v = 0 then 0 else v)"

section \<open>Patchable: the shared placement contract (patchable.py)\<close>

text \<open>
  The private attributes \<open>_entry\<close>, \<open>_entry_patched\<close>, ... are written \<open>u_entry\<close>,
  \<open>u_entry_patched\<close>, ... The reference trajectory is represented by its \<open>S\<close> column.
\<close>

record patchable =
  LABEL1 :: "string option"
  u_entry :: "addr option"
  u_entry_patched :: "addr option"
  u_exit :: "addr option"
  u_exit_patched :: "addr option"
  u_frenet :: "addr option"
  u_center :: "addr option"
  u_reference_trajectory :: "real list option"

definition Patchable_init :: patchable where
  "Patchable_init =
     \<lparr>LABEL1 = None, u_entry = None, u_entry_patched = None, u_exit = None,
      u_exit_patched = None, u_frenet = None, u_center = None,
      u_reference_trajectory = None\<rparr>"

definition clear_placement :: "'a patchable_scheme \<Rightarrow> 'a patchable_scheme" where
  "clear_placement e =
     e\<lparr>u_entry := None, u_entry_patched := None, u_exit := None,
       u_exit_patched := None, u_center := None\<rparr>"

definition place :: "addr \<Rightarrow> 'a patchable_scheme \<Rightarrow> store \<Rightarrow> 'a patchable_scheme \<times> store" where
  "place frame e h =
     (let e1 = clear_placement e;
          (a, h1) = new_Frame frame h
      in (e1\<lparr>u_entry := Some a\<rparr>, h1))"

definition entry :: "'a patchable_scheme \<Rightarrow> addr option" where
  "entry e = u_entry e"

text \<open>
  A property returns its value or raises, and in both cases leaves the element and the
  store as they are at that point: the result is the triple of the outcome, the element
  and the store. \<open>self.entry.__class__(self.entry)\<close> on an unplaced element calls
  \<open>NoneType(None)\<close>, which raises \<open>TypeError\<close> before anything is assigned.
\<close>

type_synonym 'e outcome = "(error + addr) \<times> 'e \<times> store"

definition Patchable_entry_patched :: "'a patchable_scheme \<Rightarrow> store \<Rightarrow> 'a patchable_scheme outcome" where
  "Patchable_entry_patched e h =
     (case u_entry_patched e of
        Some a \<Rightarrow> (Inr a, e, h)
      | None \<Rightarrow>
          (case entry e of
             None \<Rightarrow> (Inl TypeError, e, h)
           | Some p \<Rightarrow>
               (let (a, h1) = new_Frame p h
                in (Inr a, e\<lparr>u_entry_patched := Some a\<rparr>, h1))))"

definition Patchable_exit :: "'a patchable_scheme \<Rightarrow> store \<Rightarrow> 'a patchable_scheme outcome" where
  "Patchable_exit e h =
     (case u_exit e of
        Some a \<Rightarrow> (Inr a, e, h)
      | None \<Rightarrow>
          (case Patchable_entry_patched e h of
             (Inl err, e1, h1) \<Rightarrow> (Inl err, e1, h1)
           | (Inr p, e1, h1) \<Rightarrow>
               (let (a, h2) = new_Frame p h1
                in (Inr a, e1\<lparr>u_exit := Some a\<rparr>, h2))))"

definition Patchable_exit_patched :: "'a patchable_scheme \<Rightarrow> store \<Rightarrow> 'a patchable_scheme outcome" where
  "Patchable_exit_patched e h =
     (case u_exit_patched e of
        Some a \<Rightarrow> (Inr a, e, h)
      | None \<Rightarrow>
          (case Patchable_exit e h of
             (Inl err, e1, h1) \<Rightarrow> (Inl err, e1, h1)
           | (Inr p, e1, h1) \<Rightarrow>
               (let (a, h2) = new_Frame p h1
                in (Inr a, e1\<lparr>u_exit_patched := Some a\<rparr>, h2))))"

definition Patchable_center :: "'a patchable_scheme \<Rightarrow> store \<Rightarrow> 'a patchable_scheme outcome" where
  "Patchable_center e h =
     (case u_center e of
        Some a \<Rightarrow> (Inr a, e, h)
      | None \<Rightarrow>
          (case entry e of
             None \<Rightarrow> (Inl TypeError, e, h)
           | Some p \<Rightarrow>
               (let (a, h1) = new_Frame p h
                in (Inr a, e\<lparr>u_center := Some a\<rparr>, h1))))"

section \<open>Magnets (magnetique.py)\<close>

text \<open>
  \<open>Magnet\<close> adds the optional \<open>KINEMATICS\<close> object, of which only the attribute
  \<open>brho\<close> is read.
\<close>

record kinematics =
  brho :: real

record magnet = patchable +
  KINEMATICS :: "kinematics option"

subsection \<open>CartesianMagnet\<close>

record cartesian_magnet = magnet +
  LENGTH_IS_ARC_LENGTH :: bool
  KPOS :: "int option"
  XL :: "real option"
  X_E :: "real option"
  X_S :: "real option"
  XCE :: "real option"
  YCE :: "real option"
  ALE :: "real option"
  B0 :: "real option"
  B1 :: "real option"

text \<open>
  \<open>post_init\<close>: the conversion of an arc length into a straight length. Arithmetic on
  \<open>None\<close> raises \<open>TypeError\<close> and a division by a zero quantity \<open>ZeroDivisionError\<close>.
\<close>

definition CartesianMagnet_post_init :: "'a cartesian_magnet_scheme \<Rightarrow> error + 'a cartesian_magnet_scheme" where
  "CartesianMagnet_post_init e =
     (if LENGTH_IS_ARC_LENGTH e then
        (case KINEMATICS e of
           None \<Rightarrow> Inl (ZgoubidooException ''Arc length conversion requested but KINEMATICS not provided.'')
         | Some k \<Rightarrow>
             (let arc_length = XL e;
                  field = (if B1 e = None then B0 e else B1 e)
              in case field of
                   None \<Rightarrow> Inl TypeError
                 | Some fld \<Rightarrow>
                     if fld = 0 then Inl ZeroDivisionError
                     else (let rho = brho k / fld
                           in case arc_length of
                                None \<Rightarrow> Inl TypeError
                              | Some al \<Rightarrow>
                                  if rho = 0 then Inl ZeroDivisionError
                                  else (let phi = al / rho
                                        in Inr (e\<lparr>XL := Some (2 * rho * sin (phi / 2))\<rparr>)))))
      else Inr e)"

definition rotation :: "'a cartesian_magnet_scheme \<Rightarrow> real" where
  "rotation e = or_zero (ALE e)"

definition CartesianMagnet_length :: "'a cartesian_magnet_scheme \<Rightarrow> real option" where
  "CartesianMagnet_length e = XL e"

definition x_offset :: "'a cartesian_magnet_scheme \<Rightarrow> real" where
  "x_offset e = or_zero (XCE e)"

definition y_offset :: "'a cartesian_magnet_scheme \<Rightarrow> real" where
  "y_offset e = or_zero (YCE e)"

text \<open>
  The angle \<open>arcsin((self.XL * self.B1) / (2 * self.KINEMATICS.brho))\<close>, written twice
  in the source (in \<open>entry_patched\<close> and in \<open>exit_patched\<close>): the product is evaluated
  first, then the attribute \<open>brho\<close> of \<open>KINEMATICS\<close> is read, then the quotient is taken.
\<close>

definition arcsin_correction :: "'a cartesian_magnet_scheme \<Rightarrow> error + real" where
  "arcsin_correction e =
     (case XL e of
        None \<Rightarrow> Inl TypeError
      | Some l \<Rightarrow>
          (case B1 e of
             None \<Rightarrow> Inl TypeError
           | Some b \<Rightarrow>
               (case KINEMATICS e of
                  None \<Rightarrow> Inl AttributeError
                | Some k \<Rightarrow>
                    if 2 * brho k = 0 then Inl ZeroDivisionError
                    else Inr (arcsin ((l * b) / (2 * brho k))))))"

definition CartesianMagnet_entry_patched ::
  "'a cartesian_magnet_scheme \<Rightarrow> store \<Rightarrow> 'a cartesian_magnet_scheme outcome" where
  "CartesianMagnet_entry_patched e h =
     (case u_entry_patched e of
        Some a \<Rightarrow> (Inr a, e, h)
      | None \<Rightarrow>
          (case entry e of
             None \<Rightarrow> (Inl TypeError, e, h)
           | Some p \<Rightarrow>
               (let (a, h1) = new_Frame p h;
                    e1 = e\<lparr>u_entry_patched := Some a\<rparr>
                in if KPOS e1 \<in> {Some 0, Some 1, Some 2} then
                     (let h2 = translate_x a (- or_zero (X_E e1)) h1;
                          h3 = translate_x a (x_offset e1) h2;
                          h4 = translate_y a (y_offset e1) h3;
                          h5 = rotate_z a (- rotation e1) h4
                      in (Inr a, e1, h5))
                   else if KPOS e1 = Some 3 then
                     (let h2 = translate_x a (- or_zero (X_E e1)) h1
                      in case arcsin_correction e1 of
                           Inl err \<Rightarrow> (Inl err, e1, h2)
                         | Inr t \<Rightarrow> (Inr a, e1, rotate_z a (- t) h2))
                   else (Inr a, e1, h1))))"

definition CartesianMagnet_exit ::
  "'a cartesian_magnet_scheme \<Rightarrow> store \<Rightarrow> 'a cartesian_magnet_scheme outcome" where
  "CartesianMagnet_exit e h =
     (case u_exit e of
        Some a \<Rightarrow> (Inr a, e, h)
      | None \<Rightarrow>
          (case CartesianMagnet_entry_patched e h of
             (Inl err, e1, h1) \<Rightarrow> (Inl err, e1, h1)
           | (Inr p, e1, h1) \<Rightarrow>
               (let (a, h2) = new_Frame p h1;
                    e2 = e1\<lparr>u_exit := Some a\<rparr>
                in case CartesianMagnet_length e2 of
                     None \<Rightarrow> (Inl TypeError, e2, h2)
                   | Some l \<Rightarrow> (Inr a, e2, translate_x a (l + or_zero (X_E e2)) h2))))"

text \<open>
  \<open>exit_patched\<close> has no branch for a \<open>KPOS\<close> outside \<open>None, 0, 1, 2, 3\<close>: the
  attribute stays \<open>None\<close> and \<open>None\<close> is returned, hence the optional result.
\<close>

definition CartesianMagnet_exit_patched ::
  "'a cartesian_magnet_scheme \<Rightarrow> store \<Rightarrow> (error + addr option) \<times> 'a cartesian_magnet_scheme \<times> store" where
  "CartesianMagnet_exit_patched e h =
     (case u_exit_patched e of
        Some a \<Rightarrow> (Inr (Some a), e, h)
      | None \<Rightarrow>
          if KPOS e = None \<or> KPOS e = Some 1 then
            (case CartesianMagnet_exit e h of
               (Inl err, e1, h1) \<Rightarrow> (Inl err, e1, h1)
             | (Inr p, e1, h1) \<Rightarrow>
                 (let (a, h2) = new_Frame p h1;
                      e2 = e1\<lparr>u_exit_patched := Some a\<rparr>
                  in (Inr (Some a), e2, translate_x a (- or_zero (X_S e2)) h2)))
          else if KPOS e = Some 0 \<or> KPOS e = Some 2 then
            (case entry e of
               None \<Rightarrow> (Inl TypeError, e, h)
             | Some p \<Rightarrow>
                 (let (a, h1) = new_Frame p h;
                      e1 = e\<lparr>u_exit_patched := Some a\<rparr>;
                      h2 = translate_x a (or_zero (XL e1)) h1;
                      h3 = translate_x a (- or_zero (X_S e1)) h2
                  in (Inr (Some a), e1, h3)))
          else if KPOS e = Some 3 then
            (case CartesianMagnet_exit e h of
               (Inl err, e1, h1) \<Rightarrow> (Inl err, e1, h1)
             | (Inr p, e1, h1) \<Rightarrow>
                 (let (a, h2) = new_Frame p h1;
                      e2 = e1\<lparr>u_exit_patched := Some a\<rparr>
                  in case arcsin_correction e2 of
                       Inl err \<Rightarrow> (Inl err, e2, h2)
                     | Inr t \<Rightarrow> (Inr (Some a), e2, rotate_z a (- t) h2)))
          else (Inr None, e, h))"

subsection \<open>PolarMagnet\<close>

record polar_magnet = magnet +
  AT :: "real option"
  RM :: "real option"
  RE :: "real option"
  TE :: "real option"
  RS :: "real option"
  TS :: "real option"

definition angular_opening :: "'a polar_magnet_scheme \<Rightarrow> real" where
  "angular_opening e = or_zero (AT e)"

definition radius :: "'a polar_magnet_scheme \<Rightarrow> real" where
  "radius e = or_zero (RM e)"

definition PolarMagnet_length :: "'a polar_magnet_scheme \<Rightarrow> real" where
  "PolarMagnet_length e = angular_opening e * radius e"

text \<open>
  In \<open>rotate_z(-self.TE or 0 * _ureg.degree)\<close> the unary minus binds tighter than
  \<open>or\<close>: it is applied to \<open>TE\<close> itself and raises \<open>TypeError\<close> on \<open>None\<close>.
\<close>

definition PolarMagnet_entry_patched ::
  "'a polar_magnet_scheme \<Rightarrow> store \<Rightarrow> 'a polar_magnet_scheme outcome" where
  "PolarMagnet_entry_patched e h =
     (case u_entry_patched e of
        Some a \<Rightarrow> (Inr a, e, h)
      | None \<Rightarrow>
          (case entry e of
             None \<Rightarrow> (Inl TypeError, e, h)
           | Some p \<Rightarrow>
               (let (a, h1) = new_Frame p h;
                    e1 = e\<lparr>u_entry_patched := Some a\<rparr>;
                    h2 = translate_y a (radius e1 - or_zero (RE e1)) h1
                in case TE e1 of
                     None \<Rightarrow> (Inl TypeError, e1, h2)
                   | Some te \<Rightarrow> (Inr a, e1, rotate_z a (or_zero (Some (- te))) h2))))"

definition PolarMagnet_center ::
  "'a polar_magnet_scheme \<Rightarrow> store \<Rightarrow> 'a polar_magnet_scheme outcome" where
  "PolarMagnet_center e h =
     (case u_center e of
        Some a \<Rightarrow> (Inr a, e, h)
      | None \<Rightarrow>
          (case PolarMagnet_entry_patched e h of
             (Inl err, e1, h1) \<Rightarrow> (Inl err, e1, h1)
           | (Inr p, e1, h1) \<Rightarrow>
               (let (a, h2) = new_Frame p h1;
                    e2 = e1\<lparr>u_center := Some a\<rparr>
                in (Inr a, e2, translate_y a (- radius e2) h2))))"

definition PolarMagnet_exit ::
  "'a polar_magnet_scheme \<Rightarrow> store \<Rightarrow> 'a polar_magnet_scheme outcome" where
  "PolarMagnet_exit e h =
     (case u_exit e of
        Some a \<Rightarrow> (Inr a, e, h)
      | None \<Rightarrow>
          (case PolarMagnet_center e h of
             (Inl err, e1, h1) \<Rightarrow> (Inl err, e1, h1)
           | (Inr p, e1, h1) \<Rightarrow>
               (let (a, h2) = new_Frame p h1;
                    e2 = e1\<lparr>u_exit := Some a\<rparr>;
                    h3 = translate_y a (radius e2) h2;
                    h4 = rotate_z a (- angular_opening e2) h3
                in (Inr a, e2, h4))))"

definition PolarMagnet_exit_patched ::
  "'a polar_magnet_scheme \<Rightarrow> store \<Rightarrow> 'a polar_magnet_scheme outcome" where
  "PolarMagnet_exit_patched e h =
     (case u_exit_patched e of
        Some a \<Rightarrow> (Inr a, e, h)
      | None \<Rightarrow>
          (case PolarMagnet_exit e h of
             (Inl err, e1, h1) \<Rightarrow> (Inl err, e1, h1)
           | (Inr p, e1, h1) \<Rightarrow>
               (let (a, h2) = new_Frame p h1;
                    e2 = e1\<lparr>u_exit_patched := Some a\<rparr>;
                    h3 = translate_y a (or_zero (RS e2) - radius e2) h2;
                    h4 = rotate_z a (or_zero (TS e2)) h3
                in (Inr a, e2, h4))))"

subsection \<open>PolarMultiMagnet: Dipoles, FFAG and FFAGSpirale\<close>

text \<open>
  The per-magnet parameters are arrays indexed by the magnet number. \<open>DRM\<close> stands for the
  per-magnet arrays that \<open>post_init\<close> never reads.
\<close>

record polar_multi_magnet = polar_magnet +
  N :: int
  ACN :: "real list"
  OMEGA_E :: "real list"
  OMEGA_S :: "real list"
  DRM :: "real list"

definition PolarMultiMagnet_reference_angles :: "'a polar_multi_magnet_scheme \<Rightarrow> real list" where
  "PolarMultiMagnet_reference_angles e = ACN e"

definition FFAGSpirale_reference_angles :: "'a polar_multi_magnet_scheme \<Rightarrow> error + real list" where
  "FFAGSpirale_reference_angles e =
     (if ACN e = [] then Inr []
      else case AT e of
             None \<Rightarrow> Inl TypeError
           | Some ang \<Rightarrow> Inr (map (\<lambda>acn. acn + ang / 2) (ACN e)))"

text \<open>
  The five statements of the loop body of \<open>post_init\<close>, for the index \<open>i\<close>. Reading an array
  beyond its end raises \<open>IndexError\<close>; dividing \<open>None\<close> raises \<open>TypeError\<close>; the unit
  conversions \<open>_degree\<close> and \<open>_cm\<close> call a method of their argument and so raise
  \<open>AttributeError\<close> on \<open>None\<close>.
\<close>

definition default_OMEGA_E :: "nat \<Rightarrow> 'a polar_multi_magnet_scheme \<Rightarrow> error + 'a polar_multi_magnet_scheme" where
  "default_OMEGA_E i e =
     (if length (OMEGA_E e) \<le> i then Inl IndexError
      else if OMEGA_E e ! i = 0 then
        (case AT e of
           None \<Rightarrow> Inl TypeError
         | Some ang \<Rightarrow>
             Inr (e\<lparr>OMEGA_E := (OMEGA_E e)[i := ang / (2 * real_of_int (N e)) + real i * ang / real_of_int (N e)]\<rparr>))
      else Inr e)"

definition default_OMEGA_S :: "nat \<Rightarrow> 'a polar_multi_magnet_scheme \<Rightarrow> error + 'a polar_multi_magnet_scheme" where
  "default_OMEGA_S i e =
     (if length (OMEGA_S e) \<le> i then Inl IndexError
      else if OMEGA_S e ! i = 0 then
        (case AT e of
           None \<Rightarrow> Inl TypeError
         | Some ang \<Rightarrow>
             Inr (e\<lparr>OMEGA_S := (OMEGA_S e)[i := OMEGA_S e ! i -
                      (ang - ang / (2 * real_of_int (N e)) - real i * ang / real_of_int (N e))]\<rparr>))
      else Inr e)"

definition default_ACN :: "nat \<Rightarrow> 'a polar_multi_magnet_scheme \<Rightarrow> error + 'a polar_multi_magnet_scheme" where
  "default_ACN i e =
     (if length (ACN e) \<le> i then Inl IndexError
      else if ACN e ! i = 0 then
        (case AT e of
           None \<Rightarrow> Inl TypeError
         | Some ang \<Rightarrow>
             Inr (e\<lparr>ACN := (ACN e)[i := ang / (2 * real_of_int (N e)) + real i * ang / real_of_int (N e)]\<rparr>))
      else Inr e)"

definition default_RE :: "'a polar_multi_magnet_scheme \<Rightarrow> error + 'a polar_multi_magnet_scheme" where
  "default_RE e =
     (case RE e of
        None \<Rightarrow> Inl AttributeError
      | Some re \<Rightarrow> if re = 0 then Inr (e\<lparr>RE := RM e\<rparr>) else Inr e)"

definition default_RS :: "'a polar_multi_magnet_scheme \<Rightarrow> error + 'a polar_multi_magnet_scheme" where
  "default_RS e =
     (case RS e of
        None \<Rightarrow> Inl AttributeError
      | Some rs \<Rightarrow> if rs = 0 then Inr (e\<lparr>RS := RM e\<rparr>) else Inr e)"

text \<open>Statements in sequence: the first exception ends the run.\<close>

fun sequence :: "('s \<Rightarrow> error + 's) list \<Rightarrow> 's \<Rightarrow> error + 's" where
  "sequence [] s = Inr s"
| "sequence (f # fs) s = (case f s of Inl err \<Rightarrow> Inl err | Inr s' \<Rightarrow> sequence fs s')"

definition post_init_body :: "nat \<Rightarrow> 'a polar_multi_magnet_scheme \<Rightarrow> error + 'a polar_multi_magnet_scheme" where
  "post_init_body i = sequence [default_OMEGA_E i, default_OMEGA_S i, default_ACN i, default_RE, default_RS]"

text \<open>
  \<open>for i in range(self.N)\<close>. \<open>Dipoles.post_init\<close> and \<open>FFAG.post_init\<close> have the same
  text; \<open>FFAGSpirale\<close> defines no \<open>post_init\<close> of its own and inherits the one of
  \<open>Magnet\<close>, which touches none of these attributes.
\<close>

definition Dipoles_post_init :: "'a polar_multi_magnet_scheme \<Rightarrow> error + 'a polar_multi_magnet_scheme" where
  "Dipoles_post_init e = sequence (map post_init_body [0..<nat (N e)]) e"

definition FFAG_post_init :: "'a polar_multi_magnet_scheme \<Rightarrow> error + 'a polar_multi_magnet_scheme" where
  "FFAG_post_init e = sequence (map post_init_body [0..<nat (N e)]) e"

definition FFAGSpirale_post_init :: "'a polar_multi_magnet_scheme \<Rightarrow> error + 'a polar_multi_magnet_scheme" where
  "FFAGSpirale_post_init e = Inr e"


section \<open>Track re-projection\<close>

text \<open>
  The tracks are a \<open>pandas\<close> data frame: a list of column names and a list of rows. A row
  carries its label \<open>LABEL1\<close> and its cells; a cell is \<open>None\<close> when it holds \<open>NaN\<close>.
  \<open>t[c]\<close> raises \<open>KeyError\<close> when the frame has no column \<open>c\<close>, and series arithmetic
  propagates \<open>NaN\<close>.
\<close>

record track_row =
  row_LABEL1 :: string
  cells :: "string \<Rightarrow> real option"

record tracks =
  columns :: "string list"
  rows :: "track_row list"

type_synonym series = "real option list"

definition column :: "string \<Rightarrow> tracks \<Rightarrow> error + series" where
  "column c t =
     (if c \<in> set (columns t) then Inr (map (\<lambda>r. cells r c) (rows t)) else Inl KeyError)"

text \<open>
  \<open>tracks.loc[tracks.LABEL1 == label, c] = values\<close>: the rows whose label equals
  \<open>label\<close> receive their value of the series (no row does when \<open>label\<close> is \<open>None\<close>); a
  column that did not exist is created, with \<open>NaN\<close> in the other rows.
\<close>

definition loc_assign :: "string option \<Rightarrow> string \<Rightarrow> series \<Rightarrow> tracks \<Rightarrow> tracks" where
  "loc_assign label c vs t =
     t\<lparr>columns := (if c \<in> set (columns t) then columns t else columns t @ [c]),
       rows := map (\<lambda>(r, v).
                 if Some (row_LABEL1 r) = label then r\<lparr>cells := (cells r)(c := v)\<rparr>
                 else if c \<in> set (columns t) then r
                 else r\<lparr>cells := (cells r)(c := None)\<rparr>)
               (zip (rows t) vs)\<rparr>"

definition nan_lift2 :: "(real \<Rightarrow> real \<Rightarrow> real) \<Rightarrow> real option \<Rightarrow> real option \<Rightarrow> real option" where
  "nan_lift2 f a b = (case a of None \<Rightarrow> None | Some x \<Rightarrow> (case b of None \<Rightarrow> None | Some y \<Rightarrow> Some (f x y)))"

text \<open>
  \<open>entry_s\<close>: the least \<open>S\<close> of the reference trajectory, zero without a reference
  trajectory, \<open>NaN\<close> for an empty one.
\<close>

definition entry_s :: "'a patchable_scheme \<Rightarrow> real option" where
  "entry_s e =
     (case u_reference_trajectory e of
        None \<Rightarrow> Some 0
      | Some ss \<Rightarrow> (case ss of [] \<Rightarrow> None | x # xs \<Rightarrow> Some (fold min xs x)))"

text \<open>
  The steps shared by \<open>PolarMagnet.adjust_tracks_variables\<close> and the override in
  \<open>FFAGSpirale\<close>, whose texts differ only in the line computing \<open>angles\<close>. The snapshot
  \<open>t\<close> is taken before the first assignment and every right-hand side reads it; the
  assignments go to the frame \<open>tr\<close>, which keeps the assignments made before an exception.
\<close>

definition reproject ::
  "string option \<Rightarrow> real \<Rightarrow> real option \<Rightarrow> series \<Rightarrow> tracks \<Rightarrow> (error + unit) \<times> tracks" where
  "reproject label rad s0 angles t =
     (let tr1 = loc_assign label ''ANGLE'' angles t
      in case column ''Y'' t of
           Inl err \<Rightarrow> (Inl err, tr1)
         | Inr ys \<Rightarrow>
      (let tr2 = loc_assign label ''R'' ys tr1
       in case column ''Yo'' t of
            Inl err \<Rightarrow> (Inl err, tr2)
          | Inr yos \<Rightarrow>
      (let tr3 = loc_assign label ''R0'' yos tr2;
           tr4 = loc_assign label ''SREF''
                   (map (\<lambda>a. nan_lift2 (+) (map_option (\<lambda>x. rad * x) a) s0) angles) tr3;
           tr5 = loc_assign label ''YT'' (map (map_option (\<lambda>y. y - rad)) ys) tr4;
           tr6 = loc_assign label ''YT0'' (map (map_option (\<lambda>y. y - rad)) yos) tr5
       in case column ''Z'' t of
            Inl err \<Rightarrow> (Inl err, tr6)
          | Inr zs \<Rightarrow>
      (let tr7 = loc_assign label ''ZT'' zs tr6
       in case column ''Zo'' t of
            Inl err \<Rightarrow> (Inl err, tr7)
          | Inr zos \<Rightarrow>
      (let tr8 = loc_assign label ''ZT0'' zos tr7;
           tr9 = loc_assign label ''X''
                   (map (\<lambda>(y, a). nan_lift2 (\<lambda>y a. y * sin a) y a) (zip ys angles)) tr8;
           tr10 = loc_assign label ''X0''
                   (map (\<lambda>(y, a). nan_lift2 (\<lambda>y a. y * sin a) y a) (zip yos angles)) tr9;
           tr11 = loc_assign label ''Y''
                   (map (\<lambda>(y, a). nan_lift2 (\<lambda>y a. y * cos a - rad) y a) (zip ys angles)) tr10;
           tr12 = loc_assign label ''Y0''
                   (map (\<lambda>(y, a). nan_lift2 (\<lambda>y a. y * cos a - rad) y a) (zip yos angles)) tr11
       in (Inr (), tr12))))))"

definition PolarMagnet_adjust_tracks_variables ::
  "'a polar_magnet_scheme \<Rightarrow> tracks \<Rightarrow> (error + unit) \<times> tracks" where
  "PolarMagnet_adjust_tracks_variables e t =
     (case RM e of
        None \<Rightarrow> (Inl AttributeError, t)
      | Some rad \<Rightarrow>
          (case column ''X'' t of
             Inl err \<Rightarrow> (Inl err, t)
           | Inr xs \<Rightarrow>
               (let angles = map (map_option (\<lambda>x. 100 * x)) xs
                in reproject (LABEL1 e) rad (entry_s e) angles t)))"

definition FFAGSpirale_adjust_tracks_variables ::
  "'a polar_multi_magnet_scheme \<Rightarrow> tracks \<Rightarrow> (error + unit) \<times> tracks" where
  "FFAGSpirale_adjust_tracks_variables e t =
     (case RM e of
        None \<Rightarrow> (Inl AttributeError, t)
      | Some rad \<Rightarrow>
          (case column ''X'' t of
             Inl err \<Rightarrow> (Inl err, t)
           | Inr xs \<Rightarrow>
               (case AT e of
                  None \<Rightarrow> (Inl AttributeError, t)
                | Some ang \<Rightarrow>
                    (let angles = map (map_option (\<lambda>x. 100 * x + ang / 2)) xs
                     in reproject (LABEL1 e) rad (entry_s e) angles t))))"

section \<open>Unplaced elements\<close>

text \<open>
  The state of an element on which \<open>place\<close> was never called, or on which
  \<open>clear_placement\<close> was called last: the entry and the four derived frames are unset.
\<close>

definition unplaced :: "'a patchable_scheme \<Rightarrow> bool" where
  "unplaced e \<longleftrightarrow>
     u_entry e = None \<and> u_entry_patched e = None \<and> u_exit e = None
     \<and> u_exit_patched e = None \<and> u_center e = None"

section \<open>Sample elements\<close>

text \<open>Concrete elements and tracks on which the theorems below are instantiated.\<close>

definition sample_cartesian :: cartesian_magnet where
  "sample_cartesian =
     \<lparr>LABEL1 = Some ''Q1'', u_entry = None, u_entry_patched = None, u_exit = None,
      u_exit_patched = None, u_frenet = None, u_center = None,
      u_reference_trajectory = None, KINEMATICS = None,
      LENGTH_IS_ARC_LENGTH = False, KPOS = Some 1, XL = Some 2, X_E = Some 1,
      X_S = Some 3, XCE = Some 4, YCE = Some 5, ALE = Some 6, B0 = None, B1 = Some 1\<rparr>"

definition sample_polar :: polar_magnet where
  "sample_polar =
     \<lparr>LABEL1 = Some ''B1'', u_entry = None, u_entry_patched = None, u_exit = None,
      u_exit_patched = None, u_frenet = None, u_center = None,
      u_reference_trajectory = Some [7, 5, 9], KINEMATICS = None,
      AT = Some 2, RM = Some 10, RE = Some 9, TE = Some 3, RS = Some 12, TS = Some 4\<rparr>"

definition sample_dipoles :: polar_multi_magnet where
  "sample_dipoles =
     \<lparr>LABEL1 = Some ''D1'', u_entry = None, u_entry_patched = None, u_exit = None,
      u_exit_patched = None, u_frenet = None, u_center = None,
      u_reference_trajectory = None, KINEMATICS = None,
      AT = Some 6, RM = Some 10, RE = Some 0, TE = Some 0, RS = Some 0, TS = Some 0,
      N = 3, ACN = [0, 0, 0, 0, 0], OMEGA_E = [0, 0, 0, 0, 0], OMEGA_S = [0, 0, 0, 0, 0],
      DRM = [0, 0, 0, 0, 0]\<rparr>"

definition sample_mismatched :: polar_multi_magnet where
  "sample_mismatched =
     sample_dipoles\<lparr>N := 4, ACN := [0, 0, 0, 0], OMEGA_E := [0, 0, 0, 0],
                     OMEGA_S := [0, 0, 0, 0], DRM := [0, 0, 0]\<rparr>"

definition raw_cells :: "real \<Rightarrow> real \<Rightarrow> string \<Rightarrow> real option" where
  "raw_cells x y c =
     (if c = ''X'' then Some x else if c = ''Y'' then Some y
      else if c = ''Yo'' then Some y else if c = ''Z'' then Some 0
      else if c = ''Zo'' then Some 0 else None)"

definition sample_tracks :: tracks where
  "sample_tracks =
     \<lparr>columns = [''X'', ''Y'', ''Yo'', ''Z'', ''Zo''],
      rows = [\<lparr>row_LABEL1 = ''D1'', cells = raw_cells (1/100) 12\<rparr>,
              \<lparr>row_LABEL1 = ''Q1'', cells = raw_cells 3 4\<rparr>]\<rparr>"

section \<open>Basic facts\<close>

lemma or_zero_simps [simp]: "or_zero None = 0" "or_zero (Some v) = v"
  by (simp_all add: or_zero_def)

lemma new_Frame_eq: "new_Frame p h = (length h, h @ [child_of p []])"
  by (simp add: new_Frame_def)

lemma translate_x_last [simp]:
  "translate_x (length h) d (h @ [v]) = h @ [v\<lparr>motions := motions v @ [TranslateX d]\<rparr>]"
  by (simp add: translate_x_def)

lemma translate_y_last [simp]:
  "translate_y (length h) d (h @ [v]) = h @ [v\<lparr>motions := motions v @ [TranslateY d]\<rparr>]"
  by (simp add: translate_y_def)

lemma rotate_z_last [simp]:
  "rotate_z (length h) t (h @ [v]) = h @ [v\<lparr>motions := motions v @ [RotateZ t]\<rparr>]"
  by (simp add: rotate_z_def)

text \<open>
  Allocation does not move the frames that exist, and a frame built on \<open>p\<close> that then
  receives the motions \<open>ms\<close> stands at the position of \<open>p\<close> followed by \<open>ms\<close>.
\<close>

lemma absolute_append: "a < length h \<Longrightarrow> absolute (h @ xs) a = absolute h a"
proof (induction a rule: less_induct)
  case (less a)
  show ?case
  proof (cases "parent (h ! a)")
    case None
    with less.prems show ?thesis
      by (simp add: absolute.simps [of _ a] nth_append)
  next
    case (Some p)
    show ?thesis
    proof (cases "p < a")
      case True
      with less.prems have "absolute (h @ xs) p = absolute h p"
        by (intro less.IH) simp_all
      with Some True less.prems show ?thesis
        by (simp add: absolute.simps [of _ a] nth_append)
    next
      case False
      with Some less.prems show ?thesis
        by (simp add: absolute.simps [of _ a] nth_append)
    qed
  qed
qed

lemma absolute_child_of:
  "p < length h \<Longrightarrow> absolute (h @ [child_of p ms]) (length h) = absolute h p @ ms"
  by (simp add: absolute.simps [of _ "length h"] absolute_append)

text \<open>
  The accessors change the cached frames of an element and nothing else, so every parameter
  read after a nested access has the value it had before.
\<close>

lemma CartesianMagnet_entry_patched_element:
  "CartesianMagnet_entry_patched e h = (r, e1, h1) \<Longrightarrow> \<exists>c. e1 = e\<lparr>u_entry_patched := c\<rparr>"
  unfolding CartesianMagnet_entry_patched_def new_Frame_eq Let_def
  by (auto split: option.splits if_splits sum.splits intro: exI [of _ "u_entry_patched e"])

lemma CartesianMagnet_exit_element:
  "CartesianMagnet_exit e h = (r, e1, h1) \<Longrightarrow> \<exists>c d. e1 = e\<lparr>u_entry_patched := c, u_exit := d\<rparr>"
proof (cases "u_exit e")
  case (Some a)
  assume "CartesianMagnet_exit e h = (r, e1, h1)"
  with Some have "e1 = e" by (simp add: CartesianMagnet_exit_def)
  then have "e1 = e\<lparr>u_entry_patched := u_entry_patched e, u_exit := u_exit e\<rparr>" by simp
  then show ?thesis by blast
next
  case None
  assume ex: "CartesianMagnet_exit e h = (r, e1, h1)"
  obtain r0 e0 h0 where ep: "CartesianMagnet_entry_patched e h = (r0, e0, h0)"
    by (cases "CartesianMagnet_entry_patched e h") auto
  then obtain c where e0: "e0 = e\<lparr>u_entry_patched := c\<rparr>"
    using CartesianMagnet_entry_patched_element by blast
  show ?thesis
  proof (cases r0)
    case (Inl err)
    with ex ep None have "e1 = e0" by (simp add: CartesianMagnet_exit_def)
    with e0 have "e1 = e\<lparr>u_entry_patched := c, u_exit := u_exit e\<rparr>" by simp
    then show ?thesis by blast
  next
    case (Inr a)
    with ex ep None have "e1 = e0\<lparr>u_exit := Some (length h0)\<rparr>"
      by (auto simp add: CartesianMagnet_exit_def new_Frame_eq Let_def split: option.splits)
    with e0 show ?thesis by blast
  qed
qed

lemma PolarMagnet_entry_patched_element:
  "PolarMagnet_entry_patched e h = (r, e1, h1) \<Longrightarrow> \<exists>c. e1 = e\<lparr>u_entry_patched := c\<rparr>"
  unfolding PolarMagnet_entry_patched_def new_Frame_eq Let_def
  by (auto split: option.splits if_splits sum.splits intro: exI [of _ "u_entry_patched e"])

lemma PolarMagnet_center_element:
  "PolarMagnet_center e h = (r, e1, h1) \<Longrightarrow> \<exists>c d. e1 = e\<lparr>u_entry_patched := c, u_center := d\<rparr>"
proof (cases "u_center e")
  case (Some a)
  assume "PolarMagnet_center e h = (r, e1, h1)"
  with Some have "e1 = e" by (simp add: PolarMagnet_center_def)
  then have "e1 = e\<lparr>u_entry_patched := u_entry_patched e, u_center := u_center e\<rparr>" by simp
  then show ?thesis by blast
next
  case None
  assume ex: "PolarMagnet_center e h = (r, e1, h1)"
  obtain r0 e0 h0 where ep: "PolarMagnet_entry_patched e h = (r0, e0, h0)"
    by (cases "PolarMagnet_entry_patched e h") auto
  then obtain c where e0: "e0 = e\<lparr>u_entry_patched := c\<rparr>"
    using PolarMagnet_entry_patched_element by blast
  show ?thesis
  proof (cases r0)
    case (Inl err)
    with ex ep None have "e1 = e0" by (simp add: PolarMagnet_center_def)
    with e0 have "e1 = e\<lparr>u_entry_patched := c, u_center := u_center e\<rparr>" by simp
    then show ?thesis by blast
  next
    case (Inr a)
    with ex ep None have "e1 = e0\<lparr>u_center := Some (length h0)\<rparr>"
      by (auto simp add: PolarMagnet_center_def new_Frame_eq Let_def)
    with e0 show ?thesis by blast
  qed
qed

lemma PolarMagnet_exit_element:
  "PolarMagnet_exit e h = (r, e1, h1) \<Longrightarrow>
     \<exists>c d x. e1 = e\<lparr>u_entry_patched := c, u_center := d, u_exit := x\<rparr>"
proof (cases "u_exit e")
  case (Some a)
  assume "PolarMagnet_exit e h = (r, e1, h1)"
  with Some have "e1 = e" by (simp add: PolarMagnet_exit_def)
  then have "e1 = e\<lparr>u_entry_patched := u_entry_patched e, u_center := u_center e, u_exit := u_exit e\<rparr>"
    by simp
  then show ?thesis by blast
next
  case None
  assume ex: "PolarMagnet_exit e h = (r, e1, h1)"
  obtain r0 e0 h0 where ep: "PolarMagnet_center e h = (r0, e0, h0)"
    by (cases "PolarMagnet_center e h") auto
  then obtain c d where e0: "e0 = e\<lparr>u_entry_patched := c, u_center := d\<rparr>"
    using PolarMagnet_center_element by blast
  show ?thesis
  proof (cases r0)
    case (Inl err)
    with ex ep None have "e1 = e0" by (simp add: PolarMagnet_exit_def)
    with e0 have "e1 = e\<lparr>u_entry_patched := c, u_center := d, u_exit := u_exit e\<rparr>" by simp
    then show ?thesis by blast
  next
    case (Inr a)
    with ex ep None have "e1 = e0\<lparr>u_exit := Some (length h0)\<rparr>"
      by (auto simp add: PolarMagnet_exit_def new_Frame_eq Let_def)
    with e0 show ?thesis by blast
  qed
qed

section \<open>Placement\<close>

text \<open>
  C1, as the code has it. For every element and every (allocated) frame \<open>f\<close>,
  \<open>clear_placement()\<close> followed by \<open>place(f)\<close> leaves \<open>entry\<close> bound to a newly
  allocated frame, built on \<open>f\<close> with no motion of its own: it stands where \<open>f\<close> stands
  and the frames allocated before are where they were. It is not a private copy: whatever
  is later done to the caller's frame \<open>f\<close>, \<open>entry\<close> stands where \<open>f\<close> then stands. The
  four derived frames are unset; the resulting element does not depend on what was cached
  before; and the next access to a derived frame of a point-like element allocates a frame
  that stands where \<open>f\<close> stands.
\<close>

theorem clear_placement_then_place:
  assumes "f < length h"
  shows "case place f (clear_placement e) h of (e', h') \<Rightarrow>
           entry e' = Some (length h) \<and> length h \<noteq> f
         \<and> h' = h @ [child_of f []]
         \<and> absolute h' (length h) = absolute h f
         \<and> (\<forall>b < length h. absolute h' b = absolute h b)
         \<and> (\<forall>v. absolute (h'[f := v]) (length h) = absolute (h'[f := v]) f)
         \<and> u_entry_patched e' = None \<and> u_center e' = None
         \<and> u_exit e' = None \<and> u_exit_patched e' = None
         \<and> (\<forall>c0 c1 c2 c3 c4.
               place f (clear_placement (e\<lparr>u_entry := c0, u_entry_patched := c1, u_exit := c2,
                                           u_exit_patched := c3, u_center := c4\<rparr>)) h = (e', h'))
         \<and> (case Patchable_entry_patched e' h' of (r, e1, h1) \<Rightarrow>
               r = Inr (length h') \<and> absolute h1 (length h') = absolute h f)
         \<and> (case Patchable_center e' h' of (r, e1, h1) \<Rightarrow>
               r = Inr (length h') \<and> absolute h1 (length h') = absolute h f)
         \<and> (case Patchable_exit e' h' of (r, e1, h1) \<Rightarrow>
               r = Inr (Suc (length h')) \<and> absolute h1 (Suc (length h')) = absolute h f)
         \<and> (case Patchable_exit_patched e' h' of (r, e1, h1) \<Rightarrow>
               r = Inr (Suc (Suc (length h'))) \<and> absolute h1 (Suc (Suc (length h'))) = absolute h f)"
proof -
  define e' where "e' = (clear_placement (clear_placement e))\<lparr>u_entry := Some (length h)\<rparr>"
  define h0 where "h0 = h @ [child_of f []]"
  define h1 where "h1 = h0 @ [child_of (length h) []]"
  define h2 where "h2 = h1 @ [child_of (length h0) []]"
  define h3 where "h3 = h2 @ [child_of (length h1) []]"
  have len: "length h0 = Suc (length h)" "length h1 = Suc (Suc (length h))"
    "length h2 = Suc (Suc (Suc (length h)))"
    by (simp_all add: h0_def h1_def h2_def)
  have pl: "place f (clear_placement e) h = (e', h0)"
    by (simp add: place_def new_Frame_eq e'_def h0_def)
  have a0: "absolute h0 (length h) = absolute h f"
    unfolding h0_def using assms absolute_child_of [of f h "[]"] by simp
  have a1: "absolute h1 (length h0) = absolute h f"
    unfolding h1_def using a0 absolute_child_of [of "length h" h0 "[]"] len by simp
  have a2: "absolute h2 (length h1) = absolute h f"
    unfolding h2_def using a1 absolute_child_of [of "length h0" h1 "[]"] len by simp
  have a3: "absolute h3 (length h2) = absolute h f"
    unfolding h3_def using a2 absolute_child_of [of "length h1" h2 "[]"] len by simp
  have old: "\<forall>b < length h. absolute h0 b = absolute h b"
    by (simp add: h0_def absolute_append)
  have link: "absolute (h0[f := v]) (length h) = absolute (h0[f := v]) f" for v
  proof -
    have "h0[f := v] = h[f := v] @ [child_of f []]"
      using assms by (simp add: h0_def list_update_append)
    moreover have "absolute (h[f := v] @ [child_of f []]) (length (h[f := v])) =
        absolute (h[f := v]) f @ []"
      using assms by (intro absolute_child_of) simp
    moreover have "absolute (h[f := v] @ [child_of f []]) f = absolute (h[f := v]) f"
      using assms by (intro absolute_append) simp
    ultimately show ?thesis by simp
  qed
  have fields: "entry e' = Some (length h)" "u_entry e' = Some (length h)"
    "u_entry_patched e' = None" "u_center e' = None" "u_exit e' = None" "u_exit_patched e' = None"
    by (simp_all add: e'_def entry_def clear_placement_def)
  have indep: "place f (clear_placement (e\<lparr>u_entry := c0, u_entry_patched := c1, u_exit := c2,
                  u_exit_patched := c3, u_center := c4\<rparr>)) h = (e', h0)" for c0 c1 c2 c3 c4
    by (simp add: place_def new_Frame_eq e'_def h0_def clear_placement_def)
  have pe: "Patchable_entry_patched e' h0 = (Inr (length h0), e'\<lparr>u_entry_patched := Some (length h0)\<rparr>, h1)"
    using fields by (simp add: Patchable_entry_patched_def new_Frame_eq h1_def)
  have pc: "Patchable_center e' h0 = (Inr (length h0), e'\<lparr>u_center := Some (length h0)\<rparr>, h1)"
    using fields by (simp add: Patchable_center_def new_Frame_eq h1_def)
  have px: "Patchable_exit e' h0 =
      (Inr (length h1), e'\<lparr>u_entry_patched := Some (length h0), u_exit := Some (length h1)\<rparr>, h2)"
    using fields pe by (simp add: Patchable_exit_def new_Frame_eq h2_def)
  have pxp: "Patchable_exit_patched e' h0 =
      (Inr (length h2),
       e'\<lparr>u_entry_patched := Some (length h0), u_exit := Some (length h1),
           u_exit_patched := Some (length h2)\<rparr>, h3)"
    using fields px by (simp add: Patchable_exit_patched_def new_Frame_eq h3_def)
  have "length h \<noteq> f" using assms by simp
  then show ?thesis
    unfolding pl
    using fields a0 a1 a2 a3 old link indep pe pc px pxp len
    by (simp add: h0_def [symmetric])
qed

theorem clear_placement_then_place_witness:
  "(0::nat) < length [global_frame\<lparr>motions := [TranslateX 2]\<rparr>]
   \<and> (case place 0 (clear_placement (Patchable_init\<lparr>u_exit := Some 0\<rparr>))
             [global_frame\<lparr>motions := [TranslateX 2]\<rparr>] of
        (e', h') \<Rightarrow> entry e' = Some 1
          \<and> h' = [global_frame\<lparr>motions := [TranslateX 2]\<rparr>, child_of 0 []]
          \<and> absolute h' 1 = [TranslateX 2]
          \<and> u_exit e' = None)"
  using clear_placement_then_place
          [of 0 "[global_frame\<lparr>motions := [TranslateX 2]\<rparr>]" "Patchable_init\<lparr>u_exit := Some 0\<rparr>"]
  by (simp add: place_def clear_placement_def entry_def new_Frame_eq Patchable_init_def
      global_frame_def absolute.simps)

text \<open>
  C1, as stated, fails: the entry is not a private copy. After \<open>place(f)\<close> on the global
  frame, translating the caller's frame by 5 moves the entry by 5 as well.
\<close>

theorem entry_follows_the_placement_frame:
  "(case place 0 (clear_placement Patchable_init) [global_frame] of
      (e', h') \<Rightarrow> entry e' = Some 1
        \<and> absolute h' 0 = [] \<and> absolute h' 1 = []
        \<and> absolute (translate_x 0 5 h') 0 = [TranslateX 5]
        \<and> absolute (translate_x 0 5 h') 1 = [TranslateX 5]
        \<and> absolute (translate_x 0 5 h') 1 \<noteq> absolute h' 1)"
  by (simp add: place_def clear_placement_def entry_def new_Frame_eq Patchable_init_def
      global_frame_def translate_x_def absolute.simps)

text \<open>
  C10. On an element that was never placed, and on any element after
  \<open>clear_placement()\<close>, the \<open>entry\<close> accessor returns \<open>None\<close>; it has no failing branch.
\<close>

theorem entry_unplaced_is_None:
  "entry Patchable_init = None \<and> entry (clear_placement e) = None"
  by (simp add: entry_def Patchable_init_def clear_placement_def)

section \<open>Unplaced elements: the derived accessors\<close>

text \<open>
  C2, as the code has it. On an unplaced element every derived accessor (of a point-like
  element, of a Cartesian magnet and of a polar magnet) raises the built-in \<open>TypeError\<close>,
  which comes from calling \<open>NoneType(None)\<close>, and leaves the element and the store
  unchanged; for \<open>exit_patched\<close> of a Cartesian magnet this is stated for \<open>KPOS\<close> unset
  or in \<open>0, 1, 2, 3\<close>. No accessor checks \<open>entry\<close> and none raises the library's
  \<open>ZgoubidooException\<close>.
\<close>

theorem unplaced_accessors_raise_TypeError:
  assumes "unplaced e" and "unplaced c" and "unplaced m"
    and "KPOS c \<in> {None, Some 0, Some 1, Some 2, Some 3}"
  shows "Patchable_entry_patched e h = (Inl TypeError, e, h)
       \<and> Patchable_center e h = (Inl TypeError, e, h)
       \<and> Patchable_exit e h = (Inl TypeError, e, h)
       \<and> Patchable_exit_patched e h = (Inl TypeError, e, h)
       \<and> CartesianMagnet_entry_patched c h = (Inl TypeError, c, h)
       \<and> Patchable_center c h = (Inl TypeError, c, h)
       \<and> CartesianMagnet_exit c h = (Inl TypeError, c, h)
       \<and> CartesianMagnet_exit_patched c h = (Inl TypeError, c, h)
       \<and> PolarMagnet_entry_patched m h = (Inl TypeError, m, h)
       \<and> PolarMagnet_center m h = (Inl TypeError, m, h)
       \<and> PolarMagnet_exit m h = (Inl TypeError, m, h)
       \<and> PolarMagnet_exit_patched m h = (Inl TypeError, m, h)"
proof -
  have pe: "Patchable_entry_patched e h = (Inl TypeError, e, h)"
    using assms(1) by (simp add: unplaced_def Patchable_entry_patched_def entry_def)
  have px: "Patchable_exit e h = (Inl TypeError, e, h)"
    using assms(1) pe by (simp add: unplaced_def Patchable_exit_def)
  have pxp: "Patchable_exit_patched e h = (Inl TypeError, e, h)"
    using assms(1) px by (simp add: unplaced_def Patchable_exit_patched_def)
  have pc: "Patchable_center e h = (Inl TypeError, e, h)"
    using assms(1) by (simp add: unplaced_def Patchable_center_def entry_def)
  have ce: "CartesianMagnet_entry_patched c h = (Inl TypeError, c, h)"
    using assms(2) by (simp add: unplaced_def CartesianMagnet_entry_patched_def entry_def)
  have cc: "Patchable_center c h = (Inl TypeError, c, h)"
    using assms(2) by (simp add: unplaced_def Patchable_center_def entry_def)
  have cx: "CartesianMagnet_exit c h = (Inl TypeError, c, h)"
    using assms(2) ce by (simp add: unplaced_def CartesianMagnet_exit_def)
  have cxp: "CartesianMagnet_exit_patched c h = (Inl TypeError, c, h)"
    using assms(2) assms(4) cx by (auto simp add: unplaced_def CartesianMagnet_exit_patched_def entry_def)
  have me: "PolarMagnet_entry_patched m h = (Inl TypeError, m, h)"
    using assms(3) by (simp add: unplaced_def PolarMagnet_entry_patched_def entry_def)
  have mc: "PolarMagnet_center m h = (Inl TypeError, m, h)"
    using assms(3) me by (simp add: unplaced_def PolarMagnet_center_def)
  have mx: "PolarMagnet_exit m h = (Inl TypeError, m, h)"
    using assms(3) mc by (simp add: unplaced_def PolarMagnet_exit_def)
  have mxp: "PolarMagnet_exit_patched m h = (Inl TypeError, m, h)"
    using assms(3) mx by (simp add: unplaced_def PolarMagnet_exit_patched_def)
  from pe pc px pxp ce cc cx cxp me mc mx mxp show ?thesis by simp
qed

theorem unplaced_accessors_raise_TypeError_witness:
  "unplaced Patchable_init \<and> unplaced sample_cartesian \<and> unplaced sample_polar
   \<and> KPOS sample_cartesian \<in> {None, Some 0, Some 1, Some 2, Some 3}
   \<and> Patchable_exit_patched Patchable_init [] = (Inl TypeError, Patchable_init, [])
   \<and> CartesianMagnet_exit_patched sample_cartesian [] = (Inl TypeError, sample_cartesian, [])
   \<and> PolarMagnet_center sample_polar [] = (Inl TypeError, sample_polar, [])"
  using unplaced_accessors_raise_TypeError [of Patchable_init sample_cartesian sample_polar "[]"]
  by (simp add: unplaced_def Patchable_init_def sample_cartesian_def sample_polar_def)

text \<open>
  C2, as stated, fails: \<open>entry_patched\<close> of a freshly initialised element raises
  \<open>TypeError\<close>, which is not the library's configuration error.
\<close>

theorem unplaced_entry_patched_not_ZgoubidooException:
  "fst (Patchable_entry_patched Patchable_init []) = Inl TypeError
   \<and> \<not> (\<exists>msg. fst (Patchable_entry_patched Patchable_init []) = Inl (ZgoubidooException msg))"
  by (simp add: Patchable_entry_patched_def Patchable_init_def entry_def)

section \<open>Cartesian magnets\<close>

text \<open>
  C3. On a placed Cartesian magnet with \<open>KPOS\<close> in \<open>0, 1, 2\<close>, the first access to
  \<open>entry_patched\<close> allocates a frame on \<open>entry\<close> (a copy of its position, built by
  \<open>entry.__class__(entry)\<close>) and applies to it, in this order, a
  translation by \<open>-X_E\<close> along X, a translation by \<open>x_offset\<close> along X, a translation by
  \<open>y_offset\<close> along Y and a rotation by \<open>-rotation\<close> about Z; the frame is cached, and a
  later access returns it without touching the store.
\<close>

theorem CartesianMagnet_entry_patched_kpos_0_1_2:
  assumes "u_entry e = Some p" and "p < length h" and "u_entry_patched e = None"
    and "KPOS e \<in> {Some 0, Some 1, Some 2}"
  shows "CartesianMagnet_entry_patched e h =
           (Inr (length h), e\<lparr>u_entry_patched := Some (length h)\<rparr>,
            h @ [child_of p [TranslateX (- or_zero (X_E e)), TranslateX (x_offset e),
                          TranslateY (y_offset e), RotateZ (- rotation e)]])
       \<and> CartesianMagnet_entry_patched (e\<lparr>u_entry_patched := Some (length h)\<rparr>) h' =
           (Inr (length h), e\<lparr>u_entry_patched := Some (length h)\<rparr>, h')"
  using assms
  by (auto simp add: CartesianMagnet_entry_patched_def entry_def new_Frame_eq Let_def
      x_offset_def y_offset_def rotation_def)

theorem CartesianMagnet_entry_patched_kpos_0_1_2_witness:
  "u_entry (sample_cartesian\<lparr>u_entry := Some 0, KPOS := Some 2\<rparr>) = Some 0
   \<and> (0::nat) < length [global_frame\<lparr>motions := [RotateZ 1]\<rparr>]
   \<and> u_entry_patched (sample_cartesian\<lparr>u_entry := Some 0, KPOS := Some 2\<rparr>) = None
   \<and> KPOS (sample_cartesian\<lparr>u_entry := Some 0, KPOS := Some 2\<rparr>) \<in> {Some 0, Some 1, Some 2}
   \<and> CartesianMagnet_entry_patched (sample_cartesian\<lparr>u_entry := Some 0, KPOS := Some 2\<rparr>) [global_frame\<lparr>motions := [RotateZ 1]\<rparr>] =
       (Inr 1, sample_cartesian\<lparr>u_entry := Some 0, KPOS := Some 2, u_entry_patched := Some 1\<rparr>,
        [global_frame\<lparr>motions := [RotateZ 1]\<rparr>,
         child_of 0 [TranslateX (- 1), TranslateX 4, TranslateY 5, RotateZ (- 6)]])"
  using CartesianMagnet_entry_patched_kpos_0_1_2
          [of "sample_cartesian\<lparr>u_entry := Some 0, KPOS := Some 2\<rparr>" 0 "[global_frame\<lparr>motions := [RotateZ 1]\<rparr>]" "[]"]
  by (simp add: sample_cartesian_def x_offset_def y_offset_def rotation_def)

text \<open>
  C4. On a placed Cartesian magnet of length \<open>L = XL\<close>: the first access to \<open>exit\<close>
  allocates a frame on the frame \<open>entry_patched\<close> returns and translates it by
  \<open>L + X_E\<close> along X; with \<open>KPOS\<close> unset or 1, the first access to \<open>exit_patched\<close>
  allocates a frame on the frame \<open>exit\<close> returns and translates it by \<open>-X_S\<close>; with
  \<open>KPOS\<close> 0 or 2 it allocates a frame on \<open>entry\<close> itself and translates it by \<open>L\<close>
  and then by \<open>-X_S\<close>,
  neither reading nor computing \<open>entry_patched\<close> and \<open>exit\<close>.
\<close>

theorem CartesianMagnet_exit_and_exit_patched:
  assumes "u_entry e = Some p" and "p < length h" and "XL e = Some l"
  shows "(u_exit e = None \<longrightarrow> CartesianMagnet_entry_patched e h = (Inr a, e1, h1) \<longrightarrow>
            CartesianMagnet_exit e h =
              (Inr (length h1), e1\<lparr>u_exit := Some (length h1)\<rparr>,
               h1 @ [child_of a [TranslateX (l + or_zero (X_E e))]]))
       \<and> (u_exit_patched e = None \<longrightarrow> KPOS e \<in> {None, Some 1} \<longrightarrow>
            CartesianMagnet_exit e h = (Inr x, e2, h2) \<longrightarrow>
            CartesianMagnet_exit_patched e h =
              (Inr (Some (length h2)), e2\<lparr>u_exit_patched := Some (length h2)\<rparr>,
               h2 @ [child_of x [TranslateX (- or_zero (X_S e))]]))
       \<and> (u_exit_patched e = None \<longrightarrow> KPOS e \<in> {Some 0, Some 2} \<longrightarrow>
            CartesianMagnet_exit_patched e h =
              (Inr (Some (length h)), e\<lparr>u_exit_patched := Some (length h)\<rparr>,
               h @ [child_of p [TranslateX l, TranslateX (- or_zero (X_S e))]]))"
proof (intro conjI impI)
  assume "u_exit e = None" and ep: "CartesianMagnet_entry_patched e h = (Inr a, e1, h1)"
  moreover from ep obtain c where "e1 = e\<lparr>u_entry_patched := c\<rparr>"
    using CartesianMagnet_entry_patched_element by blast
  then have "XL e1 = XL e" "X_E e1 = X_E e"
    by simp_all
  ultimately show "CartesianMagnet_exit e h =
      (Inr (length h1), e1\<lparr>u_exit := Some (length h1)\<rparr>,
       h1 @ [child_of a [TranslateX (l + or_zero (X_E e))]])"
    using assms by (simp add: CartesianMagnet_exit_def new_Frame_eq CartesianMagnet_length_def Let_def)
next
  assume "u_exit_patched e = None" and "KPOS e \<in> {None, Some 1}"
    and ex: "CartesianMagnet_exit e h = (Inr x, e2, h2)"
  moreover from ex obtain c d where "e2 = e\<lparr>u_entry_patched := c, u_exit := d\<rparr>"
    using CartesianMagnet_exit_element by blast
  then have "X_S e2 = X_S e"
    by simp
  ultimately show "CartesianMagnet_exit_patched e h =
      (Inr (Some (length h2)), e2\<lparr>u_exit_patched := Some (length h2)\<rparr>,
       h2 @ [child_of x [TranslateX (- or_zero (X_S e))]])"
    by (auto simp add: CartesianMagnet_exit_patched_def new_Frame_eq Let_def)
next
  assume "u_exit_patched e = None" and "KPOS e \<in> {Some 0, Some 2}"
  then show "CartesianMagnet_exit_patched e h =
      (Inr (Some (length h)), e\<lparr>u_exit_patched := Some (length h)\<rparr>,
       h @ [child_of p [TranslateX l, TranslateX (- or_zero (X_S e))]])"
    using assms by (auto simp add: CartesianMagnet_exit_patched_def new_Frame_eq entry_def Let_def)
qed

theorem CartesianMagnet_exit_and_exit_patched_witness:
  "CartesianMagnet_entry_patched (sample_cartesian\<lparr>u_entry := Some 0\<rparr>) [global_frame] =
     (Inr 1, sample_cartesian\<lparr>u_entry := Some 0, u_entry_patched := Some 1\<rparr>,
      [global_frame, child_of 0 [TranslateX (- 1), TranslateX 4, TranslateY 5, RotateZ (- 6)]])
   \<and> CartesianMagnet_exit (sample_cartesian\<lparr>u_entry := Some 0\<rparr>) [global_frame] =
     (Inr 2, sample_cartesian\<lparr>u_entry := Some 0, u_entry_patched := Some 1, u_exit := Some 2\<rparr>,
      [global_frame, child_of 0 [TranslateX (- 1), TranslateX 4, TranslateY 5, RotateZ (- 6)],
       child_of 1 [TranslateX 3]])
   \<and> CartesianMagnet_exit_patched (sample_cartesian\<lparr>u_entry := Some 0\<rparr>) [global_frame] =
     (Inr (Some 3),
      sample_cartesian\<lparr>u_entry := Some 0, u_entry_patched := Some 1, u_exit := Some 2,
                        u_exit_patched := Some 3\<rparr>,
      [global_frame, child_of 0 [TranslateX (- 1), TranslateX 4, TranslateY 5, RotateZ (- 6)],
       child_of 1 [TranslateX 3], child_of 2 [TranslateX (- 3)]])
   \<and> absolute [global_frame, child_of 0 [TranslateX (- 1), TranslateX 4, TranslateY 5, RotateZ (- 6)],
                child_of 1 [TranslateX 3], child_of 2 [TranslateX (- 3)]] 3 =
       [TranslateX (- 1), TranslateX 4, TranslateY 5, RotateZ (- 6), TranslateX 3, TranslateX (- 3)]
   \<and> CartesianMagnet_exit_patched (sample_cartesian\<lparr>u_entry := Some 0, KPOS := Some 2\<rparr>) [global_frame] =
     (Inr (Some 1), sample_cartesian\<lparr>u_entry := Some 0, KPOS := Some 2, u_exit_patched := Some 1\<rparr>,
      [global_frame, child_of 0 [TranslateX 2, TranslateX (- 3)]])"
  using CartesianMagnet_exit_and_exit_patched
          [of "sample_cartesian\<lparr>u_entry := Some 0\<rparr>" 0 "[global_frame]" 2 1
              "sample_cartesian\<lparr>u_entry := Some 0, u_entry_patched := Some 1\<rparr>"
              "[global_frame, child_of 0 [TranslateX (- 1), TranslateX 4, TranslateY 5, RotateZ (- 6)]]" 2
              "sample_cartesian\<lparr>u_entry := Some 0, u_entry_patched := Some 1, u_exit := Some 2\<rparr>"
              "[global_frame, child_of 0 [TranslateX (- 1), TranslateX 4, TranslateY 5, RotateZ (- 6)],
                child_of 1 [TranslateX 3]]"]
        CartesianMagnet_exit_and_exit_patched
          [of "sample_cartesian\<lparr>u_entry := Some 0, KPOS := Some 2\<rparr>" 0 "[global_frame]" 2]
  by (simp add: sample_cartesian_def CartesianMagnet_entry_patched_def CartesianMagnet_exit_def
      CartesianMagnet_exit_patched_def CartesianMagnet_length_def entry_def new_Frame_eq
      x_offset_def y_offset_def rotation_def Let_def
      translate_x_def translate_y_def rotate_z_def global_frame_def absolute.simps)

text \<open>
  C6, evaluated where it fails. A placed Cartesian magnet with \<open>KPOS = 3\<close>, \<open>XL\<close> and
  \<open>B1\<close> set and no \<open>KINEMATICS\<close>: the first access to \<open>entry_patched\<close> raises
  \<open>AttributeError\<close> (reading \<open>brho\<close> of \<open>None\<close>), not \<open>ZgoubidooException\<close>, after the
  frame has been cached and translated; the second access returns the cached frame, which
  carries no rotation, without any error; \<open>exit_patched\<close> raises \<open>AttributeError\<close> too.
  \<open>post_init\<close> of the same class does raise \<open>ZgoubidooException\<close> for a missing
  \<open>KINEMATICS\<close>.
\<close>

theorem CartesianMagnet_kpos3_without_kinematics:
  "KINEMATICS sample_cartesian = None
   \<and> CartesianMagnet_entry_patched (sample_cartesian\<lparr>u_entry := Some 0, KPOS := Some 3\<rparr>)
         [global_frame] =
       (Inl AttributeError,
        sample_cartesian\<lparr>u_entry := Some 0, KPOS := Some 3, u_entry_patched := Some 1\<rparr>,
        [global_frame, child_of 0 [TranslateX (- 1)]])
   \<and> CartesianMagnet_entry_patched
         (sample_cartesian\<lparr>u_entry := Some 0, KPOS := Some 3, u_entry_patched := Some 1\<rparr>)
         [global_frame, child_of 0 [TranslateX (- 1)]] =
       (Inr 1, sample_cartesian\<lparr>u_entry := Some 0, KPOS := Some 3, u_entry_patched := Some 1\<rparr>,
        [global_frame, child_of 0 [TranslateX (- 1)]])
   \<and> CartesianMagnet_exit_patched (sample_cartesian\<lparr>u_entry := Some 0, KPOS := Some 3\<rparr>)
         [global_frame] =
       (Inl AttributeError,
        sample_cartesian\<lparr>u_entry := Some 0, KPOS := Some 3, u_entry_patched := Some 1\<rparr>,
        [global_frame, child_of 0 [TranslateX (- 1)]])
   \<and> CartesianMagnet_post_init (sample_cartesian\<lparr>LENGTH_IS_ARC_LENGTH := True\<rparr>) =
       Inl (ZgoubidooException ''Arc length conversion requested but KINEMATICS not provided.'')"
  by (simp add: sample_cartesian_def CartesianMagnet_entry_patched_def CartesianMagnet_exit_def
      CartesianMagnet_exit_patched_def CartesianMagnet_post_init_def arcsin_correction_def
      entry_def new_Frame_eq Let_def translate_x_def global_frame_def)

text \<open>
  With \<open>KINEMATICS\<close> supplied and \<open>brho\<close> not zero, the correction applied for
  \<open>KPOS = 3\<close> is a rotation by \<open>-arcsin((XL * B1) / (2 * brho))\<close> about Z, at the entrance
  and at the exit.
\<close>

lemma CartesianMagnet_kpos3_with_brho:
  assumes "u_entry e = Some p" and "p < length h" and "KPOS e = Some 3"
    and "XL e = Some l" and "B1 e = Some b" and "KINEMATICS e = Some k" and "brho k \<noteq> 0"
  shows "(u_entry_patched e = None \<longrightarrow>
            CartesianMagnet_entry_patched e h =
              (Inr (length h), e\<lparr>u_entry_patched := Some (length h)\<rparr>,
               h @ [child_of p [TranslateX (- or_zero (X_E e)),
                             RotateZ (- arcsin ((l * b) / (2 * brho k)))]]))
       \<and> (u_exit_patched e = None \<longrightarrow> CartesianMagnet_exit e h = (Inr x, e2, h2) \<longrightarrow>
            CartesianMagnet_exit_patched e h =
              (Inr (Some (length h2)), e2\<lparr>u_exit_patched := Some (length h2)\<rparr>,
               h2 @ [child_of x [RotateZ (- arcsin ((l * b) / (2 * brho k)))]]))"
proof (intro conjI impI)
  assume "u_entry_patched e = None"
  then show "CartesianMagnet_entry_patched e h =
      (Inr (length h), e\<lparr>u_entry_patched := Some (length h)\<rparr>,
       h @ [child_of p [TranslateX (- or_zero (X_E e)), RotateZ (- arcsin ((l * b) / (2 * brho k)))]])"
    using assms
    by (simp add: CartesianMagnet_entry_patched_def entry_def new_Frame_eq Let_def arcsin_correction_def)
next
  assume "u_exit_patched e = None" and ex: "CartesianMagnet_exit e h = (Inr x, e2, h2)"
  moreover from ex obtain c d where "e2 = e\<lparr>u_entry_patched := c, u_exit := d\<rparr>"
    using CartesianMagnet_exit_element by blast
  then have "XL e2 = XL e" "B1 e2 = B1 e" "KINEMATICS e2 = KINEMATICS e" by simp_all
  ultimately show "CartesianMagnet_exit_patched e h =
      (Inr (Some (length h2)), e2\<lparr>u_exit_patched := Some (length h2)\<rparr>,
       h2 @ [child_of x [RotateZ (- arcsin ((l * b) / (2 * brho k)))]])"
    using assms
    by (simp add: CartesianMagnet_exit_patched_def new_Frame_eq Let_def arcsin_correction_def)
qed

section \<open>Polar magnets\<close>

text \<open>
  C5. On a placed polar magnet, each first access allocates a frame on the previous frame
  of the chain (a copy of its position) and moves it:
  \<open>entry_patched\<close> is \<open>entry\<close> translated along Y by \<open>RM - RE\<close> and rotated about Z by
  \<open>-TE\<close>; \<open>center\<close> is \<open>entry_patched\<close> translated along Y by \<open>-RM\<close>; \<open>exit\<close> is
  \<open>center\<close> translated along Y by \<open>RM\<close> and rotated about Z by \<open>-AT\<close>; \<open>exit_patched\<close>
  is \<open>exit\<close> translated along Y by \<open>RS - RM\<close> and rotated about Z by \<open>TS\<close>; and
  \<open>length\<close> is \<open>AT\<close> times \<open>RM\<close>. An unset \<open>AT\<close>, \<open>RM\<close>, \<open>RE\<close>, \<open>RS\<close> or \<open>TS\<close>
  counts as zero.
\<close>

theorem PolarMagnet_frame_chain:
  assumes "u_entry e = Some p" and "p < length h"
  shows "(u_entry_patched e = None \<longrightarrow> TE e = Some te \<longrightarrow>
            PolarMagnet_entry_patched e h =
              (Inr (length h), e\<lparr>u_entry_patched := Some (length h)\<rparr>,
               h @ [child_of p [TranslateY (radius e - or_zero (RE e)), RotateZ (- te)]]))
       \<and> (u_center e = None \<longrightarrow> PolarMagnet_entry_patched e h = (Inr a, e1, h1) \<longrightarrow>
            PolarMagnet_center e h =
              (Inr (length h1), e1\<lparr>u_center := Some (length h1)\<rparr>,
               h1 @ [child_of a [TranslateY (- radius e)]]))
       \<and> (u_exit e = None \<longrightarrow> PolarMagnet_center e h = (Inr c, e2, h2) \<longrightarrow>
            PolarMagnet_exit e h =
              (Inr (length h2), e2\<lparr>u_exit := Some (length h2)\<rparr>,
               h2 @ [child_of c [TranslateY (radius e), RotateZ (- angular_opening e)]]))
       \<and> (u_exit_patched e = None \<longrightarrow> PolarMagnet_exit e h = (Inr x, e3, h3) \<longrightarrow>
            PolarMagnet_exit_patched e h =
              (Inr (length h3), e3\<lparr>u_exit_patched := Some (length h3)\<rparr>,
               h3 @ [child_of x [TranslateY (or_zero (RS e) - radius e), RotateZ (or_zero (TS e))]]))
       \<and> PolarMagnet_length e = or_zero (AT e) * or_zero (RM e)
       \<and> radius e = or_zero (RM e) \<and> angular_opening e = or_zero (AT e)"
proof (intro conjI impI)
  assume "u_entry_patched e = None" and "TE e = Some te"
  then show "PolarMagnet_entry_patched e h =
      (Inr (length h), e\<lparr>u_entry_patched := Some (length h)\<rparr>,
       h @ [child_of p [TranslateY (radius e - or_zero (RE e)), RotateZ (- te)]])"
    using assms by (simp add: PolarMagnet_entry_patched_def entry_def new_Frame_eq Let_def radius_def)
next
  assume "u_center e = None" and ep: "PolarMagnet_entry_patched e h = (Inr a, e1, h1)"
  moreover from ep obtain c where "e1 = e\<lparr>u_entry_patched := c\<rparr>"
    using PolarMagnet_entry_patched_element by blast
  then have "RM e1 = RM e" by simp
  ultimately show "PolarMagnet_center e h =
      (Inr (length h1), e1\<lparr>u_center := Some (length h1)\<rparr>,
       h1 @ [child_of a [TranslateY (- radius e)]])"
    by (simp add: PolarMagnet_center_def new_Frame_eq Let_def radius_def)
next
  assume "u_exit e = None" and ce: "PolarMagnet_center e h = (Inr c, e2, h2)"
  moreover from ce obtain c' d where "e2 = e\<lparr>u_entry_patched := c', u_center := d\<rparr>"
    using PolarMagnet_center_element by blast
  then have "RM e2 = RM e" "AT e2 = AT e" by simp_all
  ultimately show "PolarMagnet_exit e h =
      (Inr (length h2), e2\<lparr>u_exit := Some (length h2)\<rparr>,
       h2 @ [child_of c [TranslateY (radius e), RotateZ (- angular_opening e)]])"
    by (simp add: PolarMagnet_exit_def new_Frame_eq Let_def radius_def angular_opening_def)
next
  assume "u_exit_patched e = None" and ex: "PolarMagnet_exit e h = (Inr x, e3, h3)"
  moreover from ex obtain c' d y where "e3 = e\<lparr>u_entry_patched := c', u_center := d, u_exit := y\<rparr>"
    using PolarMagnet_exit_element by blast
  then have "RM e3 = RM e" "RS e3 = RS e" "TS e3 = TS e" by simp_all
  ultimately show "PolarMagnet_exit_patched e h =
      (Inr (length h3), e3\<lparr>u_exit_patched := Some (length h3)\<rparr>,
       h3 @ [child_of x [TranslateY (or_zero (RS e) - radius e), RotateZ (or_zero (TS e))]])"
    by (simp add: PolarMagnet_exit_patched_def new_Frame_eq Let_def radius_def)
qed (simp_all add: PolarMagnet_length_def radius_def angular_opening_def)

theorem PolarMagnet_frame_chain_witness:
  "PolarMagnet_entry_patched (sample_polar\<lparr>u_entry := Some 0\<rparr>) [global_frame] =
     (Inr 1, sample_polar\<lparr>u_entry := Some 0, u_entry_patched := Some 1\<rparr>,
      [global_frame, child_of 0 [TranslateY 1, RotateZ (- 3)]])
   \<and> PolarMagnet_center (sample_polar\<lparr>u_entry := Some 0\<rparr>) [global_frame] =
     (Inr 2, sample_polar\<lparr>u_entry := Some 0, u_entry_patched := Some 1, u_center := Some 2\<rparr>,
      [global_frame, child_of 0 [TranslateY 1, RotateZ (- 3)], child_of 1 [TranslateY (- 10)]])
   \<and> PolarMagnet_exit (sample_polar\<lparr>u_entry := Some 0\<rparr>) [global_frame] =
     (Inr 3,
      sample_polar\<lparr>u_entry := Some 0, u_entry_patched := Some 1, u_center := Some 2, u_exit := Some 3\<rparr>,
      [global_frame, child_of 0 [TranslateY 1, RotateZ (- 3)], child_of 1 [TranslateY (- 10)],
       child_of 2 [TranslateY 10, RotateZ (- 2)]])
   \<and> PolarMagnet_exit_patched (sample_polar\<lparr>u_entry := Some 0\<rparr>) [global_frame] =
     (Inr 4,
      sample_polar\<lparr>u_entry := Some 0, u_entry_patched := Some 1, u_center := Some 2, u_exit := Some 3,
                    u_exit_patched := Some 4\<rparr>,
      [global_frame, child_of 0 [TranslateY 1, RotateZ (- 3)], child_of 1 [TranslateY (- 10)],
       child_of 2 [TranslateY 10, RotateZ (- 2)], child_of 3 [TranslateY 2, RotateZ 4]])
   \<and> absolute [global_frame, child_of 0 [TranslateY 1, RotateZ (- 3)], child_of 1 [TranslateY (- 10)],
                child_of 2 [TranslateY 10, RotateZ (- 2)], child_of 3 [TranslateY 2, RotateZ 4]] 4 =
       [TranslateY 1, RotateZ (- 3), TranslateY (- 10), TranslateY 10, RotateZ (- 2),
        TranslateY 2, RotateZ 4]
   \<and> PolarMagnet_length sample_polar = 2 * 10"
  using PolarMagnet_frame_chain
          [of "sample_polar\<lparr>u_entry := Some 0\<rparr>" 0 "[global_frame]" 3 1
              "sample_polar\<lparr>u_entry := Some 0, u_entry_patched := Some 1\<rparr>"
              "[global_frame, child_of 0 [TranslateY 1, RotateZ (- 3)]]" 2
              "sample_polar\<lparr>u_entry := Some 0, u_entry_patched := Some 1, u_center := Some 2\<rparr>"
              "[global_frame, child_of 0 [TranslateY 1, RotateZ (- 3)], child_of 1 [TranslateY (- 10)]]" 3
              "sample_polar\<lparr>u_entry := Some 0, u_entry_patched := Some 1, u_center := Some 2,
                            u_exit := Some 3\<rparr>"
              "[global_frame, child_of 0 [TranslateY 1, RotateZ (- 3)], child_of 1 [TranslateY (- 10)],
                child_of 2 [TranslateY 10, RotateZ (- 2)]]"]
  by (simp add: sample_polar_def PolarMagnet_entry_patched_def PolarMagnet_center_def
      PolarMagnet_exit_def PolarMagnet_exit_patched_def PolarMagnet_length_def entry_def new_Frame_eq
      radius_def angular_opening_def Let_def translate_y_def rotate_z_def global_frame_def
      absolute.simps)

section \<open>Multi-magnet elements: the defaults of \<open>post_init\<close>\<close>

lemma sequence_append:
  "sequence (fs @ gs) s = (case sequence fs s of Inl err \<Rightarrow> Inl err | Inr s' \<Rightarrow> sequence gs s')"
  by (induction fs arbitrary: s) (auto split: sum.splits)

lemma post_init_body_ok:
  assumes "AT s = Some ang" and "RM s = Some rm" and "RE s \<noteq> None" and "RS s \<noteq> None"
    and "k < length (OMEGA_E s)" and "k < length (OMEGA_S s)" and "k < length (ACN s)"
  shows "\<exists>s'. post_init_body k s = Inr s'
         \<and> N s' = N s \<and> AT s' = AT s \<and> RM s' = RM s \<and> DRM s' = DRM s
         \<and> RE s' \<noteq> None \<and> RS s' \<noteq> None
         \<and> length (OMEGA_E s') = length (OMEGA_E s)
         \<and> length (OMEGA_S s') = length (OMEGA_S s)
         \<and> ACN s' = (if ACN s ! k = 0
                      then (ACN s)[k := ang / (2 * real_of_int (N s)) + real k * ang / real_of_int (N s)]
                      else ACN s)"
  using assms
  by (auto simp add: post_init_body_def default_OMEGA_E_def default_OMEGA_S_def default_ACN_def
      default_RE_def default_RS_def)

lemma post_init_body_IndexError:
  assumes "AT s = Some ang"
    and "length (OMEGA_E s) \<le> k \<or> length (OMEGA_S s) \<le> k \<or> length (ACN s) \<le> k"
  shows "post_init_body k s = Inl IndexError"
  using assms
  by (auto simp add: post_init_body_def default_OMEGA_E_def default_OMEGA_S_def default_ACN_def)

lemma post_init_loop:
  assumes "AT e = Some ang" and "RM e = Some rm" and "RE e \<noteq> None" and "RS e \<noteq> None"
    and "k \<le> length (OMEGA_E e)" and "k \<le> length (OMEGA_S e)" and "k \<le> length (ACN e)"
  shows "\<exists>s. sequence (map post_init_body [0..<k]) e = Inr s
         \<and> N s = N e \<and> AT s = AT e \<and> RM s = RM e \<and> DRM s = DRM e
         \<and> RE s \<noteq> None \<and> RS s \<noteq> None
         \<and> length (OMEGA_E s) = length (OMEGA_E e)
         \<and> length (OMEGA_S s) = length (OMEGA_S e)
         \<and> length (ACN s) = length (ACN e)
         \<and> (\<forall>j < length (ACN e).
               ACN s ! j =
                 (if j < k \<and> ACN e ! j = 0
                  then ang / (2 * real_of_int (N e)) + real j * ang / real_of_int (N e)
                  else ACN e ! j))"
  using assms
proof (induction k)
  case 0
  then show ?case by simp
next
  case (Suc k)
  then obtain s where run: "sequence (map post_init_body [0..<k]) e = Inr s"
    and keep: "N s = N e" "AT s = AT e" "RM s = RM e" "DRM s = DRM e" "RE s \<noteq> None" "RS s \<noteq> None"
    and len: "length (OMEGA_E s) = length (OMEGA_E e)" "length (OMEGA_S s) = length (OMEGA_S e)"
      "length (ACN s) = length (ACN e)"
    and acn: "\<forall>j < length (ACN e).
               ACN s ! j =
                 (if j < k \<and> ACN e ! j = 0
                  then ang / (2 * real_of_int (N e)) + real j * ang / real_of_int (N e)
                  else ACN e ! j)"
    by auto
  have "AT s = Some ang" "RM s = Some rm" "k < length (OMEGA_E s)" "k < length (OMEGA_S s)"
    "k < length (ACN s)"
    using Suc.prems keep len by simp_all
  from post_init_body_ok [OF this(1) this(2) keep(5) keep(6) this(3) this(4) this(5)]
  obtain s' where body: "post_init_body k s = Inr s'"
    and keep': "N s' = N s" "AT s' = AT s" "RM s' = RM s" "DRM s' = DRM s" "RE s' \<noteq> None"
      "RS s' \<noteq> None"
    and len': "length (OMEGA_E s') = length (OMEGA_E s)" "length (OMEGA_S s') = length (OMEGA_S s)"
    and acn': "ACN s' = (if ACN s ! k = 0
                      then (ACN s)[k := ang / (2 * real_of_int (N s)) + real k * ang / real_of_int (N s)]
                      else ACN s)"
    by blast
  have seq: "sequence (map post_init_body [0..<Suc k]) e = Inr s'"
    using run body by (simp add: sequence_append)
  have k_in: "k < length (ACN e)"
    using Suc.prems by simp
  have at_k: "ACN s ! k = ACN e ! k"
    using acn k_in by simp
  have "\<forall>j < length (ACN e).
          ACN s' ! j =
            (if j < Suc k \<and> ACN e ! j = 0
             then ang / (2 * real_of_int (N e)) + real j * ang / real_of_int (N e)
             else ACN e ! j)"
  proof (intro allI impI)
    fix j assume j: "j < length (ACN e)"
    show "ACN s' ! j =
            (if j < Suc k \<and> ACN e ! j = 0
             then ang / (2 * real_of_int (N e)) + real j * ang / real_of_int (N e)
             else ACN e ! j)"
    proof (cases "j = k")
      case True
      then show ?thesis
        using acn' at_k k_in len keep by simp
    next
      case False
      then have "ACN s' ! j = ACN s ! j"
        using acn' by simp
      moreover have "j < Suc k \<longleftrightarrow> j < k"
        using False by auto
      ultimately show ?thesis
        using acn j by simp
    qed
  qed
  moreover have "length (ACN s') = length (ACN e)"
    using acn' len by simp
  ultimately show ?case
    using seq keep keep' len len' by simp
qed

lemma sequence_error:
  "sequence fs s = Inl err \<Longrightarrow> \<exists>f \<in> set fs. \<exists>s'. f s' = Inl err"
  by (induction fs arbitrary: s) (auto split: sum.splits)

lemma post_init_body_errors:
  "post_init_body k s = Inl err \<Longrightarrow> err \<in> {IndexError, TypeError, AttributeError}"
  by (auto simp add: post_init_body_def default_OMEGA_E_def default_OMEGA_S_def default_ACN_def
      default_RE_def default_RS_def split: if_splits option.splits sum.splits)

lemma post_init_loop_errors:
  "sequence (map post_init_body ks) e = Inl err \<Longrightarrow> err \<in> {IndexError, TypeError, AttributeError}"
  using sequence_error [of "map post_init_body ks" e err] post_init_body_errors by auto

text \<open>
  C7, as the code has it. For a \<open>Dipoles\<close> or \<open>FFAG\<close> element with \<open>AT\<close>, \<open>RM\<close>,
  \<open>RE\<close> and \<open>RS\<close> set and at least \<open>N\<close> entries in \<open>OMEGA_E\<close>, \<open>OMEGA_S\<close> and
  \<open>ACN\<close>, \<open>post_init\<close> returns, and every \<open>ACN[i]\<close> with \<open>i < N\<close> that was zero
  becomes \<open>AT/(2N) + i AT/N\<close> while the other entries keep their values; for \<open>N = 3\<close>
  and three zero entries the first three values are \<open>AT/6\<close>, \<open>AT/2\<close> and \<open>5 AT/6\<close>;
  \<open>reference_angles\<close> returns the list \<open>ACN\<close>. An \<open>FFAGSpirale\<close> element has no such
  defaulting, and its \<open>reference_angles\<close> returns every \<open>ACN[i]\<close> plus \<open>AT/2\<close>.
  The values are real numbers: floating-point rounding is not modelled.
\<close>

theorem Dipoles_FFAG_default_ACN:
  assumes "AT e = Some ang" and "RM e \<noteq> None" and "RE e \<noteq> None" and "RS e \<noteq> None"
    and "nat (N e) \<le> length (OMEGA_E e)" and "nat (N e) \<le> length (OMEGA_S e)"
    and "nat (N e) \<le> length (ACN e)"
  shows "(\<exists>e'. Dipoles_post_init e = Inr e' \<and> FFAG_post_init e = Inr e'
            \<and> length (ACN e') = length (ACN e)
            \<and> (\<forall>i < length (ACN e).
                  ACN e' ! i =
                    (if i < nat (N e) \<and> ACN e ! i = 0
                     then ang / (2 * real_of_int (N e)) + real i * ang / real_of_int (N e)
                     else ACN e ! i))
            \<and> (N e = 3 \<longrightarrow> (\<forall>i < 3. ACN e ! i = 0) \<longrightarrow>
                  take 3 (ACN e') = [ang / 6, ang / 2, 5 * ang / 6])
            \<and> PolarMultiMagnet_reference_angles e' = ACN e')
       \<and> FFAGSpirale_post_init e = Inr e
       \<and> FFAGSpirale_reference_angles e = Inr (map (\<lambda>acn. acn + ang / 2) (ACN e))"
proof -
  from assms(2) obtain rm where rm: "RM e = Some rm" by auto
  from post_init_loop [OF assms(1) rm assms(3) assms(4) assms(5) assms(6) assms(7)]
  obtain e' where run: "sequence (map post_init_body [0..<nat (N e)]) e = Inr e'"
    and len: "length (ACN e') = length (ACN e)"
    and acn: "\<forall>j < length (ACN e).
               ACN e' ! j =
                 (if j < nat (N e) \<and> ACN e ! j = 0
                  then ang / (2 * real_of_int (N e)) + real j * ang / real_of_int (N e)
                  else ACN e ! j)"
    by blast
  have three: "take 3 (ACN e') = [ang / 6, ang / 2, 5 * ang / 6]"
    if n3: "N e = 3" and zero: "\<forall>i < 3. ACN e ! i = 0"
  proof -
    have l3: "3 \<le> length (ACN e)" using assms(7) n3 by simp
    have in3: "0 < length (ACN e)" "1 < length (ACN e)" "2 < length (ACN e)"
      using l3 by auto
    have a0: "ACN e' ! 0 = ang / 6"
      using acn [rule_format, OF in3(1)] zero [rule_format, of 0] n3 by simp
    have a1: "ACN e' ! 1 = ang / 2"
      using acn [rule_format, OF in3(2)] zero [rule_format, of 1] n3 by simp
    have a2: "ACN e' ! 2 = 5 * ang / 6"
      using acn [rule_format, OF in3(3)] zero [rule_format, of 2] n3 by simp
    have "length (take 3 (ACN e')) = 3" using l3 len by simp
    moreover have "\<forall>i < 3. take 3 (ACN e') ! i = [ang / 6, ang / 2, 5 * ang / 6] ! i"
    proof (intro allI impI)
      fix i :: nat assume "i < 3"
      then consider "i = 0" | "i = 1" | "i = 2" by linarith
      then show "take 3 (ACN e') ! i = [ang / 6, ang / 2, 5 * ang / 6] ! i"
        using a0 a1 a2 by cases simp_all
    qed
    ultimately show ?thesis
      by (simp add: list_eq_iff_nth_eq)
  qed
  have "Dipoles_post_init e = Inr e'" "FFAG_post_init e = Inr e'"
    using run by (simp_all add: Dipoles_post_init_def FFAG_post_init_def)
  moreover have "FFAGSpirale_reference_angles e = Inr (map (\<lambda>acn. acn + ang / 2) (ACN e))"
    using assms(1) by (simp add: FFAGSpirale_reference_angles_def)
  ultimately show ?thesis
    using len acn three
    by (simp add: PolarMultiMagnet_reference_angles_def FFAGSpirale_post_init_def)
qed

theorem Dipoles_FFAG_default_ACN_witness:
  "Dipoles_post_init sample_dipoles = FFAG_post_init sample_dipoles
   \<and> (case Dipoles_post_init sample_dipoles of
         Inl err \<Rightarrow> False
       | Inr e' \<Rightarrow> ACN e' = [1, 3, 5, 0, 0] \<and> PolarMultiMagnet_reference_angles e' = [1, 3, 5, 0, 0])"
proof -
  from Dipoles_FFAG_default_ACN [of sample_dipoles 6]
  obtain e' where run: "Dipoles_post_init sample_dipoles = Inr e'"
    "FFAG_post_init sample_dipoles = Inr e'"
    and len: "length (ACN e') = 5"
    and acn: "\<forall>i < 5. ACN e' ! i = (if i < 3 then 6 / (2 * 3) + real i * 6 / 3 else 0)"
    and ref: "PolarMultiMagnet_reference_angles e' = ACN e'"
    by (auto simp add: sample_dipoles_def nth_Cons split: nat.splits)
  have "ACN e' ! 0 = 1" "ACN e' ! 1 = 3" "ACN e' ! 2 = 5" "ACN e' ! 3 = 0" "ACN e' ! 4 = 0"
    using acn [rule_format, of 0] acn [rule_format, of 1] acn [rule_format, of 2]
      acn [rule_format, of 3] acn [rule_format, of 4] by simp_all
  then have "\<forall>i < 5. ACN e' ! i = [1, 3, 5, 0, 0] ! i"
    by (auto simp add: nth_Cons less_Suc_eq numeral_eq_Suc split: nat.splits)
  then have "ACN e' = [1, 3, 5, 0, 0]"
    using len by (simp add: list_eq_iff_nth_eq)
  then show ?thesis using run ref by simp
qed

text \<open>
  C7, as stated for every Polar-Multi element, fails on \<open>FFAGSpirale\<close>: with \<open>N = 3\<close>,
  \<open>AT = 6\<close> and the azimuths unset, \<open>ACN\<close> stays zero and \<open>reference_angles\<close> is not
  the list \<open>ACN\<close>.
\<close>

theorem FFAGSpirale_keeps_ACN:
  "N sample_dipoles = 3 \<and> AT sample_dipoles = Some 6 \<and> ACN sample_dipoles = [0, 0, 0, 0, 0]
   \<and> FFAGSpirale_post_init sample_dipoles = Inr sample_dipoles
   \<and> take 3 (ACN sample_dipoles) \<noteq> [6 / 6, 6 / 2, 5 * 6 / 6]
   \<and> FFAGSpirale_reference_angles sample_dipoles = Inr [3, 3, 3, 3, 3]
   \<and> FFAGSpirale_reference_angles sample_dipoles \<noteq> Inr (ACN sample_dipoles)"
  by (simp add: sample_dipoles_def FFAGSpirale_post_init_def FFAGSpirale_reference_angles_def)

text \<open>
  C8, as the code has it. \<open>post_init\<close> of \<open>Dipoles\<close> and \<open>FFAG\<close> compares no lengths.
  With \<open>AT\<close>, \<open>RM\<close>, \<open>RE\<close> and \<open>RS\<close> set, it returns when \<open>OMEGA_E\<close>, \<open>OMEGA_S\<close>
  and \<open>ACN\<close> have at least \<open>N\<close> entries each, whatever the lengths of the other
  per-magnet arrays, which it leaves as they are; otherwise it raises the built-in
  \<open>IndexError\<close>. It never raises \<open>ZgoubidooException\<close>.
\<close>

theorem post_init_array_lengths:
  assumes "AT e = Some ang" and "RM e \<noteq> None" and "RE e \<noteq> None" and "RS e \<noteq> None"
  shows "(nat (N e) \<le> length (OMEGA_E e) \<and> nat (N e) \<le> length (OMEGA_S e)
            \<and> nat (N e) \<le> length (ACN e) \<longrightarrow>
          (\<exists>e'. Dipoles_post_init e = Inr e' \<and> FFAG_post_init e = Inr e' \<and> DRM e' = DRM e))
       \<and> (\<not> (nat (N e) \<le> length (OMEGA_E e) \<and> nat (N e) \<le> length (OMEGA_S e)
               \<and> nat (N e) \<le> length (ACN e)) \<longrightarrow>
          Dipoles_post_init e = Inl IndexError \<and> FFAG_post_init e = Inl IndexError)
       \<and> (\<forall>msg. Dipoles_post_init e \<noteq> Inl (ZgoubidooException msg)
               \<and> FFAG_post_init e \<noteq> Inl (ZgoubidooException msg))"
proof (intro conjI impI allI)
  from assms(2) obtain rm where rm: "RM e = Some rm" by auto
  {
    assume ok: "nat (N e) \<le> length (OMEGA_E e) \<and> nat (N e) \<le> length (OMEGA_S e)
            \<and> nat (N e) \<le> length (ACN e)"
    from post_init_loop [OF assms(1) rm assms(3) assms(4), of "nat (N e)"] ok
    obtain e' where "sequence (map post_init_body [0..<nat (N e)]) e = Inr e'" "DRM e' = DRM e"
      by blast
    then show "\<exists>e'. Dipoles_post_init e = Inr e' \<and> FFAG_post_init e = Inr e' \<and> DRM e' = DRM e"
      by (simp add: Dipoles_post_init_def FFAG_post_init_def)
  }
  {
    assume bad: "\<not> (nat (N e) \<le> length (OMEGA_E e) \<and> nat (N e) \<le> length (OMEGA_S e)
               \<and> nat (N e) \<le> length (ACN e))"
    define m where "m = min (length (OMEGA_E e)) (min (length (OMEGA_S e)) (length (ACN e)))"
    have m_lt: "m < nat (N e)" using bad by (auto simp add: m_def)
    have m_le: "m \<le> length (OMEGA_E e)" "m \<le> length (OMEGA_S e)" "m \<le> length (ACN e)"
      by (simp_all add: m_def)
    from post_init_loop [OF assms(1) rm assms(3) assms(4) m_le]
    obtain s where run: "sequence (map post_init_body [0..<m]) e = Inr s"
      and at: "AT s = AT e"
      and len: "length (OMEGA_E s) = length (OMEGA_E e)" "length (OMEGA_S s) = length (OMEGA_S e)"
        "length (ACN s) = length (ACN e)"
      by blast
    have short: "length (OMEGA_E s) \<le> m \<or> length (OMEGA_S s) \<le> m \<or> length (ACN s) \<le> m"
      using len by (auto simp add: m_def min_def)
    have body: "post_init_body m s = Inl IndexError"
      using post_init_body_IndexError [OF _ short] at assms(1) by simp
    have split: "[0..<nat (N e)] = [0..<m] @ m # [Suc m..<nat (N e)]"
      using m_lt upt_add_eq_append [of 0 m "nat (N e) - m"] upt_conv_Cons [of m "nat (N e)"]
      by simp
    have "sequence (map post_init_body [0..<nat (N e)]) e = Inl IndexError"
      using run body by (simp add: split sequence_append)
    then show "Dipoles_post_init e = Inl IndexError" "FFAG_post_init e = Inl IndexError"
      by (simp_all add: Dipoles_post_init_def FFAG_post_init_def)
  }
  {
    fix msg
    show "Dipoles_post_init e \<noteq> Inl (ZgoubidooException msg)"
      using post_init_loop_errors [of "[0..<nat (N e)]" e "ZgoubidooException msg"]
      by (auto simp add: Dipoles_post_init_def)
    show "FFAG_post_init e \<noteq> Inl (ZgoubidooException msg)"
      using post_init_loop_errors [of "[0..<nat (N e)]" e "ZgoubidooException msg"]
      by (auto simp add: FFAG_post_init_def)
  }
qed

theorem post_init_array_lengths_witness:
  "AT sample_dipoles = Some 6 \<and> RM sample_dipoles \<noteq> None \<and> RE sample_dipoles \<noteq> None
   \<and> RS sample_dipoles \<noteq> None
   \<and> (\<exists>e'. Dipoles_post_init sample_dipoles = Inr e' \<and> DRM e' = DRM sample_dipoles)
   \<and> Dipoles_post_init (sample_dipoles\<lparr>N := 6\<rparr>) = Inl IndexError
   \<and> FFAG_post_init (sample_dipoles\<lparr>N := 6\<rparr>) = Inl IndexError"
  using post_init_array_lengths [of sample_dipoles 6]
    post_init_array_lengths [of "sample_dipoles\<lparr>N := 6\<rparr>" 6]
  by (auto simp add: sample_dipoles_def)

text \<open>
  C8, as stated, fails: a four-magnet \<open>Dipoles\<close> with four azimuths and three radius
  offsets \<open>DRM\<close> passes \<open>post_init\<close> without any error, and the element can then be
  placed and its frames computed.
\<close>

theorem Dipoles_post_init_accepts_mismatched_arrays:
  "N sample_mismatched = 4 \<and> length (ACN sample_mismatched) = 4
   \<and> length (DRM sample_mismatched) = 3
   \<and> Dipoles_post_init sample_mismatched =
       Inr (sample_mismatched
              \<lparr>RE := Some 10, RS := Some 10,
               ACN := [3 / 4, 9 / 4, 15 / 4, 21 / 4],
               OMEGA_E := [3 / 4, 9 / 4, 15 / 4, 21 / 4],
               OMEGA_S := [- (21 / 4), - (15 / 4), - (9 / 4), - (3 / 4)]\<rparr>)
   \<and> (case Dipoles_post_init sample_mismatched of
         Inl err \<Rightarrow> False
       | Inr e' \<Rightarrow>
           (case place 0 e' [global_frame] of
              (e2, h2) \<Rightarrow> fst (PolarMagnet_exit_patched e2 h2) = Inr 5))"
  by (simp add: sample_mismatched_def sample_dipoles_def Dipoles_post_init_def post_init_body_def
      default_OMEGA_E_def default_OMEGA_S_def default_ACN_def default_RE_def default_RS_def
      upt_rec place_def clear_placement_def new_Frame_eq entry_def Let_def
      PolarMagnet_entry_patched_def PolarMagnet_center_def PolarMagnet_exit_def
      PolarMagnet_exit_patched_def)

section \<open>Track re-projection of polar elements\<close>

text \<open>Column by column, what an assignment through \<open>loc\<close> does to the row \<open>i\<close>.\<close>

lemma columns_loc_assign: "set (columns (loc_assign l c vs t)) = insert c (set (columns t))"
  by (auto simp add: loc_assign_def)

lemma length_rows_loc_assign:
  "length (rows (loc_assign l c vs t)) = min (length (rows t)) (length vs)"
  by (simp add: loc_assign_def)

lemma label_loc_assign:
  "i < length (rows t) \<Longrightarrow> i < length vs \<Longrightarrow>
     row_LABEL1 (rows (loc_assign l c vs t) ! i) = row_LABEL1 (rows t ! i)"
  by (simp add: loc_assign_def)

lemma cells_loc_assign_match:
  "i < length (rows t) \<Longrightarrow> i < length vs \<Longrightarrow> Some (row_LABEL1 (rows t ! i)) = l \<Longrightarrow>
     cells (rows (loc_assign l c vs t) ! i) c' = (if c' = c then vs ! i else cells (rows t ! i) c')"
  by (simp add: loc_assign_def)

lemma cells_loc_assign_other:
  "i < length (rows t) \<Longrightarrow> i < length vs \<Longrightarrow> Some (row_LABEL1 (rows t ! i)) \<noteq> l \<Longrightarrow>
     c' \<in> set (columns t) \<Longrightarrow>
     cells (rows (loc_assign l c vs t) ! i) c' = cells (rows t ! i) c'"
  by (auto simp add: loc_assign_def)

lemmas loc_assign_simps =
  columns_loc_assign length_rows_loc_assign label_loc_assign cells_loc_assign_match
  cells_loc_assign_other

lemma reproject_returns:
  assumes "{''Y'', ''Yo'', ''Z'', ''Zo''} \<subseteq> set (columns t)"
  shows "fst (reproject l rad s0 angles t) = Inr ()"
  using assms by (simp add: reproject_def column_def Let_def)

lemma reproject_length:
  assumes "{''Y'', ''Yo'', ''Z'', ''Zo''} \<subseteq> set (columns t)"
    and "length angles = length (rows t)"
  shows "length (rows (snd (reproject l rad s0 angles t))) = length (rows t)"
  using assms by (simp add: reproject_def column_def Let_def loc_assign_simps)

lemma reproject_label:
  assumes "{''Y'', ''Yo'', ''Z'', ''Zo''} \<subseteq> set (columns t)"
    and "length angles = length (rows t)" and "i < length (rows t)"
  shows "row_LABEL1 (rows (snd (reproject l rad s0 angles t)) ! i) = row_LABEL1 (rows t ! i)"
  using assms by (simp add: reproject_def column_def Let_def loc_assign_simps)

lemma reproject_match:
  assumes "{''Y'', ''Yo'', ''Z'', ''Zo''} \<subseteq> set (columns t)"
    and "length angles = length (rows t)" and "i < length (rows t)"
    and "Some (row_LABEL1 (rows t ! i)) = l"
  shows "cells (rows (snd (reproject l rad s0 angles t)) ! i) ''ANGLE'' = angles ! i"
    and "cells (rows (snd (reproject l rad s0 angles t)) ! i) ''SREF'' =
           nan_lift2 (+) (map_option (\<lambda>x. rad * x) (angles ! i)) s0"
    and "cells (rows (snd (reproject l rad s0 angles t)) ! i) ''X'' =
           nan_lift2 (\<lambda>y a. y * sin a) (cells (rows t ! i) ''Y'') (angles ! i)"
    and "cells (rows (snd (reproject l rad s0 angles t)) ! i) ''Y'' =
           nan_lift2 (\<lambda>y a. y * cos a - rad) (cells (rows t ! i) ''Y'') (angles ! i)"
  using assms by (simp_all add: reproject_def column_def Let_def loc_assign_simps)

lemma reproject_other:
  assumes "{''Y'', ''Yo'', ''Z'', ''Zo''} \<subseteq> set (columns t)"
    and "length angles = length (rows t)" and "i < length (rows t)"
    and "Some (row_LABEL1 (rows t ! i)) \<noteq> l" and "c \<in> set (columns t)"
  shows "cells (rows (snd (reproject l rad s0 angles t)) ! i) c = cells (rows t ! i) c"
  using assms by (simp add: reproject_def column_def Let_def loc_assign_simps)

text \<open>
  C9, as the code has it. On tracks that have the raw columns \<open>X\<close>, \<open>Y\<close>, \<open>Yo\<close>,
  \<open>Z\<close> and \<open>Zo\<close>, \<open>PolarMagnet.adjust_tracks_variables\<close> returns and keeps the number
  of rows and their labels. In a row whose label is the element's label, with raw values
  \<open>x\<close> and \<open>y\<close> in \<open>X\<close> and \<open>Y\<close>: \<open>ANGLE\<close> is \<open>100 x\<close>; \<open>SREF\<close> is \<open>RM\<close> times the
  angle plus \<open>entry_s\<close>; \<open>X\<close> becomes \<open>y sin(angle)\<close> and \<open>Y\<close> becomes
  \<open>y cos(angle) - RM\<close>. A row with another label keeps its value in every column the
  tracks had. The override in \<open>FFAGSpirale\<close> does the same with the angle
  \<open>100 x + AT/2\<close>.
\<close>

theorem adjust_tracks_variables_reprojection:
  assumes "{''X'', ''Y'', ''Yo'', ''Z'', ''Zo''} \<subseteq> set (columns t)"
    and "i < length (rows t)"
    and "cells (rows t ! i) ''X'' = Some x" and "cells (rows t ! i) ''Y'' = Some y"
    and "RM e = Some rm" and "entry_s e = Some s0"
    and "RM f = Some rm'" and "entry_s f = Some s0'" and "AT f = Some ang"
  shows "(\<exists>t'. PolarMagnet_adjust_tracks_variables e t = (Inr (), t')
            \<and> length (rows t') = length (rows t)
            \<and> row_LABEL1 (rows t' ! i) = row_LABEL1 (rows t ! i)
            \<and> (Some (row_LABEL1 (rows t ! i)) = LABEL1 e \<longrightarrow>
                  cells (rows t' ! i) ''ANGLE'' = Some (100 * x)
                \<and> cells (rows t' ! i) ''SREF'' = Some (rm * (100 * x) + s0)
                \<and> cells (rows t' ! i) ''X'' = Some (y * sin (100 * x))
                \<and> cells (rows t' ! i) ''Y'' = Some (y * cos (100 * x) - rm))
            \<and> (Some (row_LABEL1 (rows t ! i)) \<noteq> LABEL1 e \<longrightarrow>
                  (\<forall>c \<in> set (columns t). cells (rows t' ! i) c = cells (rows t ! i) c)))
       \<and> (\<exists>t'. FFAGSpirale_adjust_tracks_variables f t = (Inr (), t')
            \<and> length (rows t') = length (rows t)
            \<and> row_LABEL1 (rows t' ! i) = row_LABEL1 (rows t ! i)
            \<and> (Some (row_LABEL1 (rows t ! i)) = LABEL1 f \<longrightarrow>
                  cells (rows t' ! i) ''ANGLE'' = Some (100 * x + ang / 2)
                \<and> cells (rows t' ! i) ''SREF'' = Some (rm' * (100 * x + ang / 2) + s0')
                \<and> cells (rows t' ! i) ''X'' = Some (y * sin (100 * x + ang / 2))
                \<and> cells (rows t' ! i) ''Y'' = Some (y * cos (100 * x + ang / 2) - rm'))
            \<and> (Some (row_LABEL1 (rows t ! i)) \<noteq> LABEL1 f \<longrightarrow>
                  (\<forall>c \<in> set (columns t). cells (rows t' ! i) c = cells (rows t ! i) c)))"
proof -
  have cols: "{''Y'', ''Yo'', ''Z'', ''Zo''} \<subseteq> set (columns t)"
    using assms(1) by simp
  have colX: "column ''X'' t = Inr (map (\<lambda>r. cells r ''X'') (rows t))"
    using assms(1) by (simp add: column_def)
  define angles where "angles = map (map_option (\<lambda>x. 100 * x)) (map (\<lambda>r. cells r ''X'') (rows t))"
  define angles' where
    "angles' = map (map_option (\<lambda>x. 100 * x + ang / 2)) (map (\<lambda>r. cells r ''X'') (rows t))"
  have len: "length angles = length (rows t)" "length angles' = length (rows t)"
    by (simp_all add: angles_def angles'_def)
  have at_i: "angles ! i = Some (100 * x)" "angles' ! i = Some (100 * x + ang / 2)"
    using assms(2) assms(3) by (simp_all add: angles_def angles'_def)
  have polar: "PolarMagnet_adjust_tracks_variables e t = reproject (LABEL1 e) rm (Some s0) angles t"
    using assms(5) assms(6) colX
    by (simp add: PolarMagnet_adjust_tracks_variables_def angles_def)
  have spiral: "FFAGSpirale_adjust_tracks_variables f t = reproject (LABEL1 f) rm' (Some s0') angles' t"
    using assms(7) assms(8) assms(9) colX
    by (simp add: FFAGSpirale_adjust_tracks_variables_def angles'_def)
  have part: "\<exists>t'. reproject l rad (Some s) as t = (Inr (), t')
            \<and> length (rows t') = length (rows t)
            \<and> row_LABEL1 (rows t' ! i) = row_LABEL1 (rows t ! i)
            \<and> (Some (row_LABEL1 (rows t ! i)) = l \<longrightarrow>
                  cells (rows t' ! i) ''ANGLE'' = Some a
                \<and> cells (rows t' ! i) ''SREF'' = Some (rad * a + s)
                \<and> cells (rows t' ! i) ''X'' = Some (y * sin a)
                \<and> cells (rows t' ! i) ''Y'' = Some (y * cos a - rad))
            \<and> (Some (row_LABEL1 (rows t ! i)) \<noteq> l \<longrightarrow>
                  (\<forall>c \<in> set (columns t). cells (rows t' ! i) c = cells (rows t ! i) c))"
    if l_as: "length as = length (rows t)" and a: "as ! i = Some a" for l rad s as a
  proof -
    obtain r t' where res: "reproject l rad (Some s) as t = (r, t')"
      by (cases "reproject l rad (Some s) as t")
    have r: "r = Inr ()"
      using reproject_returns [OF cols, of l rad "Some s" as] res by simp
    have t': "t' = snd (reproject l rad (Some s) as t)"
      using res by simp
    have "length (rows t') = length (rows t)"
      unfolding t' by (rule reproject_length [OF cols l_as])
    moreover have "row_LABEL1 (rows t' ! i) = row_LABEL1 (rows t ! i)"
      unfolding t' by (rule reproject_label [OF cols l_as assms(2)])
    moreover have "cells (rows t' ! i) ''ANGLE'' = Some a"
      "cells (rows t' ! i) ''SREF'' = Some (rad * a + s)"
      "cells (rows t' ! i) ''X'' = Some (y * sin a)"
      "cells (rows t' ! i) ''Y'' = Some (y * cos a - rad)"
      if "Some (row_LABEL1 (rows t ! i)) = l"
      unfolding t'
      using reproject_match [OF cols l_as assms(2) that, of rad "Some s"] a assms(4)
      by (simp_all add: nan_lift2_def)
    moreover have "\<forall>c \<in> set (columns t). cells (rows t' ! i) c = cells (rows t ! i) c"
      if "Some (row_LABEL1 (rows t ! i)) \<noteq> l"
      unfolding t'
      using reproject_other [OF cols l_as assms(2) that] by simp
    ultimately show ?thesis
      using res r by simp
  qed
  show ?thesis
    unfolding polar spiral
    using part [OF len(1) at_i(1), of "LABEL1 e" rm s0] part [OF len(2) at_i(2), of "LABEL1 f" rm' s0']
    by simp
qed

theorem adjust_tracks_variables_reprojection_witness:
  "(case PolarMagnet_adjust_tracks_variables sample_polar
           (sample_tracks\<lparr>rows := [\<lparr>row_LABEL1 = ''B1'', cells = raw_cells 2 3\<rparr>]\<rparr>) of
      (r, t') \<Rightarrow> r = Inr () \<and> length (rows t') = 1
        \<and> cells (rows t' ! 0) ''ANGLE'' = Some 200
        \<and> cells (rows t' ! 0) ''SREF'' = Some 2005
        \<and> cells (rows t' ! 0) ''X'' = Some (3 * sin 200)
        \<and> cells (rows t' ! 0) ''Y'' = Some (3 * cos 200 - 10))
   \<and> (case PolarMagnet_adjust_tracks_variables sample_polar
           (sample_tracks\<lparr>rows := [\<lparr>row_LABEL1 = ''Q1'', cells = raw_cells 2 3\<rparr>]\<rparr>) of
      (r, t') \<Rightarrow> r = Inr ()
        \<and> cells (rows t' ! 0) ''X'' = Some 2 \<and> cells (rows t' ! 0) ''Y'' = Some 3)"
proof -
  let ?t = "\<lambda>l. sample_tracks\<lparr>rows := [\<lparr>row_LABEL1 = l, cells = raw_cells 2 3\<rparr>]\<rparr>"
  have s0: "entry_s sample_polar = Some 5"
    by (simp add: entry_s_def sample_polar_def)
  have d0: "entry_s sample_dipoles = Some 0"
    by (simp add: entry_s_def sample_dipoles_def)
  have a: "{''X'', ''Y'', ''Yo'', ''Z'', ''Zo''} \<subseteq> set (columns (?t l))"
    "(0::nat) < length (rows (?t l))"
    "cells (rows (?t l) ! 0) ''X'' = Some 2" "cells (rows (?t l) ! 0) ''Y'' = Some 3" for l
    by (simp_all add: sample_tracks_def raw_cells_def)
  have p: "RM sample_polar = Some 10" "LABEL1 sample_polar = Some ''B1''"
    by (simp_all add: sample_polar_def)
  have d: "RM sample_dipoles = Some 10" "AT sample_dipoles = Some 6"
    by (simp_all add: sample_dipoles_def)
  have cX: "''X'' \<in> set (columns (?t ''Q1''))" "''Y'' \<in> set (columns (?t ''Q1''))"
    by (simp_all add: sample_tracks_def)
  from adjust_tracks_variables_reprojection
    [OF a(1) a(2) a(3) a(4) p(1) s0 d(1) d0 d(2), of "''B1''"]
  have m: "\<exists>t'. PolarMagnet_adjust_tracks_variables sample_polar (?t ''B1'') = (Inr (), t')
        \<and> length (rows t') = 1
        \<and> cells (rows t' ! 0) ''ANGLE'' = Some 200
        \<and> cells (rows t' ! 0) ''SREF'' = Some 2005
        \<and> cells (rows t' ! 0) ''X'' = Some (3 * sin 200)
        \<and> cells (rows t' ! 0) ''Y'' = Some (3 * cos 200 - 10)"
    using p(2) by (auto simp add: sample_tracks_def)
  from adjust_tracks_variables_reprojection
    [OF a(1) a(2) a(3) a(4) p(1) s0 d(1) d0 d(2), of "''Q1''"]
  have o: "\<exists>t'. PolarMagnet_adjust_tracks_variables sample_polar (?t ''Q1'') = (Inr (), t')
        \<and> cells (rows t' ! 0) ''X'' = Some 2 \<and> cells (rows t' ! 0) ''Y'' = Some 3"
    using p(2) cX a(3) a(4) by (auto simp add: sample_tracks_def)
  from m o show ?thesis by auto
qed

text \<open>
  C9, as stated for every polar element, fails on \<open>FFAGSpirale\<close>: for the raw horizontal
  coordinate \<open>1/100\<close> and \<open>AT = 6\<close> the angle is \<open>4\<close>, not a multiple \<open>100 * (1/100)\<close> of
  the raw coordinate.
\<close>

theorem FFAGSpirale_angle_is_shifted:
  "(case FFAGSpirale_adjust_tracks_variables sample_dipoles sample_tracks of
      (r, t') \<Rightarrow> r = Inr () \<and> row_LABEL1 (rows t' ! 0) = ''D1''
        \<and> LABEL1 sample_dipoles = Some ''D1''
        \<and> cells (rows sample_tracks ! 0) ''X'' = Some (1 / 100)
        \<and> cells (rows t' ! 0) ''ANGLE'' = Some 4
        \<and> cells (rows t' ! 0) ''ANGLE'' \<noteq> Some (100 * (1 / 100)))"
  by (simp add: FFAGSpirale_adjust_tracks_variables_def sample_dipoles_def sample_tracks_def
      raw_cells_def column_def reproject_def Let_def entry_s_def loc_assign_simps)

end
